theory Spec2Isabelle
  imports Main "HOL-Library.Sublist" "HOL-Library.Multiset"
begin

section \<open>Python values and string primitives\<close>

text \<open>
  The structures handled by \<^verbatim>\<open>prompt_processor\<close> are JSON-like Python values: strings,
  numbers, booleans, \<^verbatim>\<open>None\<close>, lists and dicts with string keys. A dict is an association
  list in insertion order, as Python iterates it.

  Text is modelled by \<^typ>\<open>string\<close>, whose 256 characters stand for the code points
  U+0000 to U+00FF. The whitespace and digit classes and the case conversions are those
  of Python on these code points.
\<close>

datatype json =
    JNull
  | JBool bool
  | JInt int
  | JStr string
  | JArr "json list"
  | JObj "(string \<times> json) list"

type_synonym dict = "(string \<times> json) list"

text \<open>\<^verbatim>\<open>k in d\<close>, \<^verbatim>\<open>d.get(k)\<close> and \<^verbatim>\<open>d[k] = v\<close> on a dict.\<close>

definition dict_has :: "dict \<Rightarrow> string \<Rightarrow> bool" where
  "dict_has d k = (k \<in> set (map fst d))"

definition dict_get :: "dict \<Rightarrow> string \<Rightarrow> json option" where
  "dict_get d k = map_of d k"

fun dict_set :: "dict \<Rightarrow> string \<Rightarrow> json \<Rightarrow> dict" where
  "dict_set [] k v = [(k, v)]"
| "dict_set ((k', v') # d) k v =
     (if k' = k then (k, v) # d else (k', v') # dict_set d k v)"

text \<open>\<^verbatim>\<open>d.update(other)\<close>: the items of \<^verbatim>\<open>other\<close> are stored one by one.\<close>

fun dict_update :: "dict \<Rightarrow> dict \<Rightarrow> dict" where
  "dict_update d [] = d"
| "dict_update d ((k, v) # other) = dict_update (dict_set d k v) other"

text \<open>Python truthiness, as tested by \<^verbatim>\<open>if x:\<close>.\<close>

fun truthy :: "json \<Rightarrow> bool" where
  "truthy JNull = False"
| "truthy (JBool b) = b"
| "truthy (JInt n) = (n \<noteq> 0)"
| "truthy (JStr s) = (s \<noteq> [])"
| "truthy (JArr xs) = (xs \<noteq> [])"
| "truthy (JObj d) = (d \<noteq> [])"

text \<open>
  \<^verbatim>\<open>str.isspace\<close>, which is also the regular-expression class \<^verbatim>\<open>\s\<close> of a \<^verbatim>\<open>str\<close>
  pattern: tab to carriage return, the four separators U+001C to U+001F, the space,
  U+0085 and the no-break space U+00A0.
\<close>

definition py_isspace :: "char \<Rightarrow> bool" where
  "py_isspace c = (c \<in> set [CHR 0x09, CHR 0x0A, CHR 0x0B, CHR 0x0C, CHR 0x0D,
                             CHR 0x1C, CHR 0x1D, CHR 0x1E, CHR 0x1F, CHR 0x20,
                             CHR 0x85, CHR 0xA0])"

text \<open>The class \<^verbatim>\<open>\d\<close>: the decimal digits, of which the range has the ten ASCII ones.\<close>

definition is_digit :: "char \<Rightarrow> bool" where
  "is_digit c = (c \<in> set ''0123456789'')"

text \<open>
  The cased letters of the range: the ASCII letters, and the Latin-1 letters U+00C0 to
  U+00DE without the multiplication sign U+00D7, whose lower-case forms lie 32 higher.
\<close>

definition upper_letters :: string where
  "upper_letters =
     ''ABCDEFGHIJKLMNOPQRSTUVWXYZ''
     @ [CHR 0xC0, CHR 0xC1, CHR 0xC2, CHR 0xC3, CHR 0xC4, CHR 0xC5, CHR 0xC6, CHR 0xC7,
        CHR 0xC8, CHR 0xC9, CHR 0xCA, CHR 0xCB, CHR 0xCC, CHR 0xCD, CHR 0xCE, CHR 0xCF,
        CHR 0xD0, CHR 0xD1, CHR 0xD2, CHR 0xD3, CHR 0xD4, CHR 0xD5, CHR 0xD6,
        CHR 0xD8, CHR 0xD9, CHR 0xDA, CHR 0xDB, CHR 0xDC, CHR 0xDD, CHR 0xDE]"

definition lower_letters :: string where
  "lower_letters =
     ''abcdefghijklmnopqrstuvwxyz''
     @ [CHR 0xE0, CHR 0xE1, CHR 0xE2, CHR 0xE3, CHR 0xE4, CHR 0xE5, CHR 0xE6, CHR 0xE7,
        CHR 0xE8, CHR 0xE9, CHR 0xEA, CHR 0xEB, CHR 0xEC, CHR 0xED, CHR 0xEE, CHR 0xEF,
        CHR 0xF0, CHR 0xF1, CHR 0xF2, CHR 0xF3, CHR 0xF4, CHR 0xF5, CHR 0xF6,
        CHR 0xF8, CHR 0xF9, CHR 0xFA, CHR 0xFB, CHR 0xFC, CHR 0xFD, CHR 0xFE]"

text \<open>\<^verbatim>\<open>c.lower()\<close>: every other character of the range is its own lower-case form.\<close>

definition char_lower :: "char \<Rightarrow> char" where
  "char_lower c =
     (case map_of (zip upper_letters lower_letters) c of None \<Rightarrow> c | Some l \<Rightarrow> l)"

text \<open>
  \<^verbatim>\<open>c.upper()\<close>, a string: the sharp s U+00DF becomes \<^verbatim>\<open>SS\<close>. Two characters of the range
  have their upper-case form outside it, the micro sign U+00B5 (U+039C) and
  U+00FF (U+0178); no \<^typ>\<open>string\<close> holds these forms, and the model leaves the two
  characters as they are. They matter to \<^verbatim>\<open>_extract_instructions\<close> alone, and there only as
  the first character of the cleaned prompt.
\<close>

definition py_upper :: "char \<Rightarrow> string" where
  "py_upper c =
     (if c = CHR 0xDF then ''SS''
      else (case map_of (zip lower_letters upper_letters) c of None \<Rightarrow> [c] | Some u \<Rightarrow> [u]))"

definition lower :: "string \<Rightarrow> string" where
  "lower s = map char_lower s"

text \<open>\<^verbatim>\<open>needle in hay\<close> on strings: substring search.\<close>

fun py_in :: "string \<Rightarrow> string \<Rightarrow> bool" where
  "py_in needle [] = (needle = [])"
| "py_in needle (c # cs) = (prefix needle (c # cs) \<or> py_in needle cs)"

text \<open>\<^verbatim>\<open>any(word in prompt for word in words)\<close>.\<close>

definition any_in :: "string list \<Rightarrow> string \<Rightarrow> bool" where
  "any_in words prompt = list_ex (\<lambda>word. py_in word prompt) words"

text \<open>\<^verbatim>\<open>s.strip()\<close>, \<^verbatim>\<open>s.split()\<close> and \<^verbatim>\<open>sep.join(xs)\<close>.\<close>

definition py_strip :: "string \<Rightarrow> string" where
  "py_strip s = rev (dropWhile py_isspace (rev (dropWhile py_isspace s)))"

fun split_acc :: "string \<Rightarrow> string \<Rightarrow> string list" where
  "split_acc w [] = (if w = [] then [] else [w])"
| "split_acc w (c # cs) =
     (if py_isspace c then (if w = [] then split_acc [] cs else w # split_acc [] cs)
      else split_acc (w @ [c]) cs)"

definition py_split :: "string \<Rightarrow> string list" where
  "py_split s = split_acc [] s"

fun py_join :: "string \<Rightarrow> string list \<Rightarrow> string" where
  "py_join sep [] = []"
| "py_join sep [x] = x"
| "py_join sep (x # y # ys) = x @ sep @ py_join sep (y # ys)"

section \<open>The regular expressions of the mapper\<close>

text \<open>
  A literal matched under \<^verbatim>\<open>re.IGNORECASE\<close> at the start of a string. The literals of the
  source are lower-case ASCII letters and spaces, and a character of the range matches
  such a letter exactly when its lower-case form is that letter.
\<close>

definition istartswith :: "string \<Rightarrow> string \<Rightarrow> bool" where
  "istartswith lit s = (length lit \<le> length s \<and> lower (take (length lit) s) = lit)"

text \<open>The class \<^verbatim>\<open>[^,.\n!?]\<close>.\<close>

definition clause_char :: "char \<Rightarrow> bool" where
  "clause_char c = (c \<notin> set [CHR '','', CHR ''.'', CHR 0x0A, CHR ''!'', CHR ''?''])"

text \<open>
  \<^verbatim>\<open>\s+([^,.\n!?]+)\<close> matched at the start of \<open>rest\<close>, giving group 1. The greedy
  \<^verbatim>\<open>\s+\<close> first takes the whole run of whitespace and gives characters back until the
  group finds a first character; the group then runs as far as it can.
\<close>

definition capture_clause :: "string \<Rightarrow> string option" where
  "capture_clause rest =
     (let n = length (takeWhile py_isspace rest) in
      case filter (\<lambda>k. k < length rest \<and> clause_char (rest ! k)) (rev [1..<Suc n]) of
        [] \<Rightarrow> None
      | k # _ \<Rightarrow> Some (takeWhile clause_char (drop k rest)))"

text \<open>
  \<^verbatim>\<open>re.search(kw + r'\s+([^,.\n!?]+)', s, re.IGNORECASE)\<close>: the leftmost position where
  the pattern matches; the result is group 1 of the match.
\<close>

fun search_clause :: "string \<Rightarrow> string \<Rightarrow> string option" where
  "search_clause kw [] = None"
| "search_clause kw (c # cs) =
     (if istartswith kw (c # cs) then
        (case capture_clause (drop (length kw) (c # cs)) of
           Some g \<Rightarrow> Some g
         | None \<Rightarrow> search_clause kw cs)
      else search_clause kw cs)"

text \<open>\<^verbatim>\<open>(words?|pages?|paragraphs?)\<close> at the start of a string.\<close>

definition match_unit :: "string \<Rightarrow> string option" where
  "match_unit s =
     (if prefix ''word'' s then Some (if prefix ''words'' s then ''words'' else ''word'')
      else if prefix ''page'' s then Some (if prefix ''pages'' s then ''pages'' else ''page'')
      else if prefix ''paragraph'' s then
        Some (if prefix ''paragraphs'' s then ''paragraphs'' else ''paragraph'')
      else None)"

text \<open>
  \<^verbatim>\<open>(\d+)\s*(words?|pages?|paragraphs?)\<close> at the start of a string, giving groups 1 and 2.
  Giving back a digit or a whitespace character never helps the unit to match, so the
  match, when there is one, takes the whole runs.
\<close>

definition match_length :: "string \<Rightarrow> (string \<times> string) option" where
  "match_length s =
     (let ds = takeWhile is_digit s in
      if ds = [] then None
      else (case match_unit (dropWhile py_isspace (drop (length ds) s)) of
              None \<Rightarrow> None
            | Some u \<Rightarrow> Some (ds, u)))"

fun search_length :: "string \<Rightarrow> (string \<times> string) option" where
  "search_length [] = None"
| "search_length (c # cs) =
     (case match_length (c # cs) of
        Some m \<Rightarrow> Some m
      | None \<Rightarrow> search_length cs)"

section \<open>ISTVONMapper (services.py)\<close>

definition action_keywords :: "(string \<times> string) list" where
  "action_keywords =
     [(''write'', ''text_generation''),
      (''create'', ''text_generation''),
      (''generate'', ''text_generation''),
      (''analyze'', ''data_analysis''),
      (''search'', ''web_search''),
      (''summarize'', ''summarization''),
      (''translate'', ''translation''),
      (''code'', ''code_generation'')]"

definition output_formats :: "(string \<times> string) list" where
  "output_formats =
     [(''blog post'', ''markdown''),
      (''blog'', ''markdown''),
      (''report'', ''pdf''),
      (''email'', ''plain_text''),
      (''presentation'', ''html''),
      (''document'', ''docx''),
      (''analysis'', ''pdf''),
      (''summary'', ''plain_text'')]"

definition tone_indicators :: "(string \<times> string) list" where
  "tone_indicators =
     [(''professional'', ''professional''),
      (''casual'', ''casual''),
      (''formal'', ''formal''),
      (''friendly'', ''friendly''),
      (''technical'', ''technical'')]"

definition politeness :: "string list" where
  "politeness = [''please'', ''can you'', ''could you'', ''i want you to'', ''i need you to'']"

text \<open>
  \<^verbatim>\<open>_extract_instructions\<close>. The pattern is anchored at the start, so \<^verbatim>\<open>re.sub\<close> removes
  at most one prefix: the first alternative that matches there, with the whitespace
  after it.
\<close>

definition strip_politeness :: "string \<Rightarrow> string" where
  "strip_politeness prompt =
     (case find (\<lambda>p. istartswith p prompt) politeness of
        None \<Rightarrow> prompt
      | Some p \<Rightarrow> dropWhile py_isspace (drop (length p) prompt))"

definition extract_instructions :: "string \<Rightarrow> string" where
  "extract_instructions prompt =
     (let cleaned = strip_politeness prompt;
          cleaned = (case cleaned of [] \<Rightarrow> [] | c # cs \<Rightarrow> py_upper c @ cs)
      in if cleaned \<noteq> [] then cleaned else prompt)"

text \<open>\<^verbatim>\<open>_extract_source_data\<close>, on the lower-cased prompt.\<close>

definition extract_source_data :: "string \<Rightarrow> json list" where
  "extract_source_data prompt =
     (if any_in [''research'', ''data'', ''file'', ''document''] prompt then
        [JObj [(''type'', JStr ''knowledge_base''),
               (''source'', JStr ''research_data''),
               (''description'', JStr ''Referenced research or data sources'')]]
      else if any_in [''company'', ''organization'', ''internal''] prompt then
        [JObj [(''type'', JStr ''knowledge_base''),
               (''source'', JStr ''company_guidelines''),
               (''description'', JStr ''Company or organizational information'')]]
      else
        [JObj [(''type'', JStr ''none''),
               (''source'', JStr ''general_knowledge''),
               (''description'', JStr ''General knowledge base'')]])"

text \<open>
  \<^verbatim>\<open>_extract_tools\<close> collects the matched categories in a Python \<^verbatim>\<open>set\<close> and then iterates
  over the set. A set of strings is iterated in the order of its hash table, which
  depends on the string hashes of the running interpreter and not on the order of
  insertion. The model keeps the elements of the set as a duplicate-free list and takes
  the interpreter's order as a parameter \<open>slot\<close>: iteration visits the elements by
  increasing slot.
\<close>

type_synonym set_order = "string \<Rightarrow> nat"

definition set_add :: "string list \<Rightarrow> string \<Rightarrow> string list" where
  "set_add s x = (if x \<in> set s then s else s @ [x])"

definition set_iter :: "set_order \<Rightarrow> string list \<Rightarrow> string list" where
  "set_iter slot s = sort_key slot s"

fun scan_keywords :: "(string \<times> string) list \<Rightarrow> string \<Rightarrow> string list \<Rightarrow> string list" where
  "scan_keywords [] prompt found = found"
| "scan_keywords ((keyword, tool) # table) prompt found =
     scan_keywords table prompt (if py_in keyword prompt then set_add found tool else found)"

definition found_tools :: "string \<Rightarrow> string list" where
  "found_tools prompt = scan_keywords action_keywords prompt []"

definition extract_tools :: "set_order \<Rightarrow> string \<Rightarrow> json list" where
  "extract_tools slot prompt =
     (let tools = map (\<lambda>tool. JObj [(''name'', JStr tool)]) (set_iter slot (found_tools prompt))
      in if tools = [] then [JObj [(''name'', JStr ''text_generation'')]] else tools)"

text \<open>\<^verbatim>\<open>_extract_variables\<close>, on the original prompt.\<close>

definition extract_topic :: "string \<Rightarrow> dict \<Rightarrow> dict" where
  "extract_topic prompt variables =
     (case search_clause ''about'' prompt of
        Some g \<Rightarrow> dict_set variables ''topic'' (JStr (py_strip g))
      | None \<Rightarrow>
          (let words = py_split prompt in
           if length words > 3 then
             dict_set variables ''topic'' (JStr (py_join '' '' (take 3 (drop 1 words))))
           else variables))"

definition extract_tone :: "string \<Rightarrow> dict \<Rightarrow> dict" where
  "extract_tone prompt variables =
     (case find (\<lambda>(indicator, tone). py_in indicator (lower prompt)) tone_indicators of
        Some (indicator, tone) \<Rightarrow> dict_set variables ''tone'' (JStr tone)
      | None \<Rightarrow> dict_set variables ''tone'' (JStr ''professional''))"

definition extract_length :: "string \<Rightarrow> dict \<Rightarrow> dict" where
  "extract_length prompt variables =
     (case search_length (lower prompt) of
        Some (number, unit) \<Rightarrow> dict_set variables ''length'' (JStr (number @ '' '' @ unit))
      | None \<Rightarrow> variables)"

definition extract_audience :: "string \<Rightarrow> dict \<Rightarrow> dict" where
  "extract_audience prompt variables =
     (case search_clause ''for'' prompt of
        Some g \<Rightarrow> dict_set variables ''target_audience'' (JStr (py_strip g))
      | None \<Rightarrow> variables)"

definition extract_variables :: "string \<Rightarrow> dict" where
  "extract_variables prompt =
     (let variables = [];
          variables = extract_topic prompt variables;
          variables = extract_tone prompt variables;
          variables = extract_length prompt variables;
          variables = extract_audience prompt variables;
          variables = dict_set variables ''priority'' (JStr ''medium'');
          variables = dict_set variables ''language'' (JStr ''en'')
      in variables)"

text \<open>\<^verbatim>\<open>_extract_outcome\<close> and \<^verbatim>\<open>_extract_notification\<close>, on the lower-cased prompt.\<close>

definition extract_outcome :: "string \<Rightarrow> dict" where
  "extract_outcome prompt =
     (let outcome = [(''format'', JStr ''plain_text''), (''delivery'', JStr ''display'')];
          outcome = (case find (\<lambda>(content_type, format_type). py_in content_type prompt)
                            output_formats of
                       Some (content_type, format_type) \<Rightarrow>
                         dict_set outcome ''format'' (JStr format_type)
                     | None \<Rightarrow> outcome)
      in if any_in [''save'', ''export'', ''download'', ''file''] prompt
         then dict_set outcome ''delivery'' (JStr ''save_to_file'')
         else outcome)"

definition extract_notification :: "string \<Rightarrow> dict" where
  "extract_notification prompt =
     (let notification = [(''method'', JStr ''none''), (''trigger'', JStr ''on_completion'')]
      in if py_in ''email'' prompt \<or> py_in ''notify'' prompt
         then dict_set notification ''method'' (JStr ''email'')
         else if py_in ''alert'' prompt \<or> py_in ''ping'' prompt
         then dict_set notification ''method'' (JStr ''in_app'')
         else notification)"

text \<open>\<^verbatim>\<open>convert_to_istvon\<close>: the six-key record.\<close>

definition convert_to_istvon :: "set_order \<Rightarrow> string \<Rightarrow> dict" where
  "convert_to_istvon slot original_prompt =
     (let prompt_lower = lower original_prompt in
      [(''instructions'', JStr (extract_instructions original_prompt)),
       (''source_data'', JArr (extract_source_data prompt_lower)),
       (''tools'', JArr (extract_tools slot prompt_lower)),
       (''variables'', JObj (extract_variables original_prompt)),
       (''outcome'', JObj (extract_outcome prompt_lower)),
       (''notification'', JObj (extract_notification prompt_lower))])"

text \<open>Reading a nested field \<^verbatim>\<open>record[k1][k2]\<close> of a record.\<close>

definition field2 :: "dict \<Rightarrow> string \<Rightarrow> string \<Rightarrow> json option" where
  "field2 r k1 k2 =
     (case dict_get r k1 of Some (JObj d) \<Rightarrow> dict_get d k2 | _ \<Rightarrow> None)"

text \<open>The \<^verbatim>\<open>name\<close> entries of a list of tool descriptors.\<close>

fun tool_names :: "json list \<Rightarrow> string list" where
  "tool_names [] = []"
| "tool_names (JObj d # ts) =
     (case dict_get d ''name'' of Some (JStr n) \<Rightarrow> n # tool_names ts | _ \<Rightarrow> tool_names ts)"
| "tool_names (_ # ts) = tool_names ts"

text \<open>The tools list of the mapper's record.\<close>

definition mapper_tools :: "set_order \<Rightarrow> string \<Rightarrow> json list" where
  "mapper_tools slot p =
     (case dict_get (convert_to_istvon slot p) ''tools'' of Some (JArr ts) \<Rightarrow> ts | _ \<Rightarrow> [])"

text \<open>
  The tool categories whose keyword occurs in a (lower-cased) prompt, as a set: what
  the specification calls the matched categories.
\<close>

definition matched_categories :: "string \<Rightarrow> string set" where
  "matched_categories prompt =
     set (map snd (filter (\<lambda>(keyword, tool). py_in keyword prompt) action_keywords))"

text \<open>
  Three set iteration orders, as interpreter runs with different string hashes can have
  them. Under \<open>seed_a\<close> all slots tie, so the elements come in insertion order. Under
  \<open>seed_b\<close> and \<open>seed_c\<close> the string \<^verbatim>\<open>summarization\<close> comes before every other; the two
  give every string different slots.
\<close>

definition seed_a :: set_order where
  "seed_a s = 0"

definition seed_b :: set_order where
  "seed_b s = (if s = ''summarization'' then 0 else 1)"

definition seed_c :: set_order where
  "seed_c s = (if s = ''summarization'' then 2 else 5)"

text \<open>What follows a captured group: the end of the text, or a clause boundary character.\<close>

definition boundary_next :: "string \<Rightarrow> bool" where
  "boundary_next post = (case post of [] \<Rightarrow> True | c # cs \<Rightarrow> \<not> clause_char c)"

section \<open>ISTVONValidator (validators.py)\<close>

text \<open>
  The validator calls \<^verbatim>\<open>jsonschema.validate(instance, schema)\<close>, a library function that
  returns normally, raises \<^verbatim>\<open>ValidationError\<close> with a path into the instance and a message,
  or raises another exception (a malformed schema, for one). The library is a parameter
  of the model, of type \<open>validate_fn\<close>: what is proved about the validator with a free
  \<open>validate\<close> holds whatever the library answers.
\<close>

datatype path_elem = Key string | Index nat

datatype lib_outcome =
    Valid
  | ValidationError "path_elem list" string
  | OtherError string

type_synonym validate_fn = "json \<Rightarrow> json \<Rightarrow> lib_outcome"

text \<open>An exception that leaves a function of the model.\<close>

datatype py_error =
    AttributeError
  | TypeError
  | ValueError string
  | Raised string

text \<open>\<^verbatim>\<open>str(x)\<close> for an element of \<^verbatim>\<open>e.path\<close>: a key as it is, an index in decimal.\<close>

fun str_nat :: "nat \<Rightarrow> string" where
  "str_nat n =
     (if n < 10 then [''0123456789'' ! n]
      else str_nat (n div 10) @ [''0123456789'' ! (n mod 10)])"

fun str_path_elem :: "path_elem \<Rightarrow> string" where
  "str_path_elem (Key k) = k"
| "str_path_elem (Index i) = str_nat i"

text \<open>
  The schema is the dict that \<^verbatim>\<open>get_cached_schema\<close> loads from \<^verbatim>\<open>istvon_schema.json\<close>.
  \<^verbatim>\<open>schema.get('properties', {})\<close> and \<^verbatim>\<open>schema.get('required', [])\<close> read it; in a JSON
  Schema the first is an object of fragments and the second a list of strings, and an
  entry of another shape is read as absent.
\<close>

type_synonym schema = dict

definition schema_props :: "schema \<Rightarrow> dict" where
  "schema_props schema =
     (case dict_get schema ''properties'' of Some (JObj props) \<Rightarrow> props | _ \<Rightarrow> [])"

fun json_strings :: "json list \<Rightarrow> string list" where
  "json_strings [] = []"
| "json_strings (JStr s # xs) = s # json_strings xs"
| "json_strings (_ # xs) = json_strings xs"

definition required_fields :: "schema \<Rightarrow> string list" where
  "required_fields schema =
     (case dict_get schema ''required'' of Some (JArr fields) \<Rightarrow> json_strings fields | _ \<Rightarrow> [])"

text \<open>\<^verbatim>\<open>validate_istvon\<close>: every outcome of the library becomes a pair.\<close>

definition validate_istvon :: "validate_fn \<Rightarrow> schema \<Rightarrow> dict \<Rightarrow> bool \<times> string option" where
  "validate_istvon validate schema istvon_data =
     (case validate (JObj istvon_data) (JObj schema) of
        Valid \<Rightarrow> (True, None)
      | ValidationError path message \<Rightarrow>
          (False, Some (''Validation error at '' @ py_join ''.'' (map str_path_elem path)
                        @ '': '' @ message))
      | OtherError e \<Rightarrow> (False, Some (''Unexpected validation error: '' @ e)))"

definition create_minimal_istvon :: "string \<Rightarrow> dict" where
  "create_minimal_istvon instructions =
     [(''instructions'', JStr instructions),
      (''source_data'', JArr [JObj [(''type'', JStr ''none''),
                                    (''source'', JStr ''general_knowledge'')]]),
      (''tools'', JArr [JObj [(''name'', JStr ''text_generation'')]]),
      (''variables'', JObj [(''tone'', JStr ''professional''),
                            (''priority'', JStr ''medium'')]),
      (''outcome'', JObj [(''format'', JStr ''plain_text''),
                          (''delivery'', JStr ''display'')]),
      (''notification'', JObj [(''method'', JStr ''none''),
                               (''trigger'', JStr ''on_completion'')])]"

text \<open>
  \<^verbatim>\<open>validate_partial\<close>. The first loop reports the required fields that are missing; the
  second validates each field the schema knows. Only \<^verbatim>\<open>ValidationError\<close> is caught there:
  any other exception of the library leaves the function.
\<close>

fun check_required :: "string list \<Rightarrow> dict \<Rightarrow> string list \<Rightarrow> string list" where
  "check_required [] partial_data errors = errors"
| "check_required (field # fields) partial_data errors =
     check_required fields partial_data
       (if \<not> dict_has partial_data field
        then errors @ [''Missing required field: '' @ field]
        else errors)"

fun validate_fields ::
  "validate_fn \<Rightarrow> dict \<Rightarrow> dict \<Rightarrow> string list \<Rightarrow> py_error + string list" where
  "validate_fields validate props [] errors = Inr errors"
| "validate_fields validate props ((field, value) # items) errors =
     (case dict_get props field of
        None \<Rightarrow> validate_fields validate props items errors
      | Some field_schema \<Rightarrow>
          (case validate value field_schema of
             Valid \<Rightarrow> validate_fields validate props items errors
           | ValidationError path message \<Rightarrow>
               validate_fields validate props items
                 (errors @ [''Field '' @ [CHR 0x27] @ field @ [CHR 0x27] @ '': '' @ message])
           | OtherError e \<Rightarrow> Inl (Raised e)))"

definition validate_partial ::
  "validate_fn \<Rightarrow> schema \<Rightarrow> dict \<Rightarrow> bool \<Rightarrow> py_error + (bool \<times> string list)" where
  "validate_partial validate schema partial_data required_only =
     (let errors = (if required_only
                    then check_required (required_fields schema) partial_data []
                    else [])
      in case validate_fields validate (schema_props schema) partial_data errors of
           Inl e \<Rightarrow> Inl e
         | Inr errors \<Rightarrow> Inr (length errors = 0, errors))"

text \<open>
  \<^verbatim>\<open>get_validation_suggestions\<close>. The record is a dict of arbitrary values, so the method
  calls of the source can fail: \<^verbatim>\<open>instructions.split()\<close> on a value that is not a string
  raises \<^verbatim>\<open>AttributeError\<close>, and \<^verbatim>\<open>'topic' not in variables\<close> on a value that is no
  container raises \<^verbatim>\<open>TypeError\<close>. Each key of the result is stored once, so storing it
  appends it. The function only reads its argument; the model returns the record as the
  call leaves it beside the result.
\<close>

type_synonym suggestions = "(string \<times> string list) list"

fun py_contains :: "json \<Rightarrow> string \<Rightarrow> py_error + bool" where
  "py_contains (JObj d) k = Inr (dict_has d k)"
| "py_contains (JArr xs) k = Inr (JStr k \<in> set xs)"
| "py_contains (JStr s) k = Inr (py_in k s)"
| "py_contains _ k = Inl TypeError"

definition suggest_instructions :: "dict \<Rightarrow> suggestions \<Rightarrow> py_error + suggestions" where
  "suggest_instructions istvon_data suggestions =
     (let instructions = (case dict_get istvon_data ''instructions'' of
                            None \<Rightarrow> JStr [] | Some v \<Rightarrow> v)
      in if truthy instructions then
           (case instructions of
              JStr s \<Rightarrow>
                (let inst_suggestions =
                       (if length (py_split s) < 5
                        then [''Consider making instructions more detailed''] else [])
                     @ (if \<not> any_in [''create'', ''write'', ''analyze'', ''generate''] (lower s)
                        then [''Start with a clear action verb (create, write, analyze, etc.)'']
                        else [])
                 in Inr (if inst_suggestions \<noteq> []
                         then suggestions @ [(''instructions'', inst_suggestions)]
                         else suggestions))
            | _ \<Rightarrow> Inl AttributeError)
         else Inr suggestions)"

definition suggest_source_data :: "dict \<Rightarrow> suggestions \<Rightarrow> suggestions" where
  "suggest_source_data istvon_data suggestions =
     (let source_data = (case dict_get istvon_data ''source_data'' of
                           None \<Rightarrow> JArr [] | Some v \<Rightarrow> v)
      in if \<not> truthy source_data
         then suggestions
                @ [(''source_data'', [''Consider specifying data sources for better context''])]
         else suggestions)"

definition suggest_variables :: "dict \<Rightarrow> suggestions \<Rightarrow> py_error + suggestions" where
  "suggest_variables istvon_data suggestions =
     (let variables = (case dict_get istvon_data ''variables'' of
                         None \<Rightarrow> JObj [] | Some v \<Rightarrow> v)
      in case py_contains variables ''topic'' of
           Inl e \<Rightarrow> Inl e
         | Inr has_topic \<Rightarrow>
             (case py_contains variables ''target_audience'' of
                Inl e \<Rightarrow> Inl e
              | Inr has_audience \<Rightarrow>
                  (let var_suggestions =
                         (if \<not> has_topic
                          then [''Adding a topic would improve clarity''] else [])
                       @ (if \<not> has_audience
                          then [''Specifying target audience helps tailor content''] else [])
                   in Inr (if var_suggestions \<noteq> []
                           then suggestions @ [(''variables'', var_suggestions)]
                           else suggestions))))"

definition get_validation_suggestions :: "dict \<Rightarrow> (py_error + suggestions) \<times> dict" where
  "get_validation_suggestions istvon_data =
     ((case suggest_instructions istvon_data [] of
         Inl e \<Rightarrow> Inl e
       | Inr suggestions \<Rightarrow>
           suggest_variables istvon_data (suggest_source_data istvon_data suggestions)),
      istvon_data)"





text \<open>The six keys of an ISTVON record (\<^verbatim>\<open>required_keys\<close> in models.py).\<close>

definition required_keys :: "string list" where
  "required_keys =
     [''instructions'', ''source_data'', ''tools'', ''variables'', ''outcome'', ''notification'']"


text \<open>A field of a record is unknown to the schema or validates against its fragment.\<close>

definition field_valid :: "validate_fn \<Rightarrow> schema \<Rightarrow> string \<times> json \<Rightarrow> bool" where
  "field_valid validate schema item =
     (case dict_get (schema_props schema) (fst item) of
        None \<Rightarrow> True
      | Some field_schema \<Rightarrow> validate (snd item) field_schema = Valid)"


definition with_unknown_keys :: dict where
  "with_unknown_keys =
     create_minimal_istvon ''Write a poem''
     @ [(''colour'', JInt 7), (''metadata'', JObj [(''tone'', JStr ''loud'')])]"

text \<open>The advisory strings a result of \<^verbatim>\<open>get_validation_suggestions\<close> holds under a key.\<close>

definition advisories :: "py_error + suggestions \<Rightarrow> string \<Rightarrow> string list" where
  "advisories result field =
     (case result of
        Inl e \<Rightarrow> []
      | Inr suggestions \<Rightarrow> (case map_of suggestions field of None \<Rightarrow> [] | Some advs \<Rightarrow> advs))"

text \<open>
  \<^verbatim>\<open>istvon_data.get('instructions', '')\<close> and \<^verbatim>\<open>istvon_data.get('variables', {})\<close>, and the
  values on which \<^verbatim>\<open>'topic' not in variables\<close> does not raise: dicts, lists and strings.
\<close>

definition instructions_value :: "dict \<Rightarrow> json" where
  "instructions_value r = (case dict_get r ''instructions'' of None \<Rightarrow> JStr [] | Some v \<Rightarrow> v)"

definition variables_value :: "dict \<Rightarrow> json" where
  "variables_value r = (case dict_get r ''variables'' of None \<Rightarrow> JObj [] | Some v \<Rightarrow> v)"

fun is_container :: "json \<Rightarrow> bool" where
  "is_container (JObj d) = True"
| "is_container (JArr xs) = True"
| "is_container (JStr s) = True"
| "is_container _ = False"

text \<open>
  Two records for examples: one whose \<^verbatim>\<open>variables\<close> entry is a number, and one that draws
  no suggestion at all and has an outcome format outside the declared values.
\<close>

definition number_variables :: dict where
  "number_variables = [(''instructions'', JStr ''Write a poem''), (''variables'', JInt 5)]"

definition complete_xml :: dict where
  "complete_xml =
     [(''instructions'', JStr ''Write a long poem about the sea''),
      (''source_data'', JArr [JObj [(''type'', JStr ''none''),
                                    (''source'', JStr ''general_knowledge'')]]),
      (''tools'', JArr [JObj [(''name'', JStr ''text_generation'')]]),
      (''variables'', JObj [(''topic'', JStr ''the sea''),
                            (''target_audience'', JStr ''sailors''),
                            (''tone'', JStr ''casual''),
                            (''priority'', JStr ''medium'')]),
      (''outcome'', JObj [(''format'', JStr ''xml''), (''delivery'', JStr ''display'')]),
      (''notification'', JObj [(''method'', JStr ''none''),
                               (''trigger'', JStr ''on_completion'')])]"

text \<open>An entry of a dict is a string, when the dict has it.\<close>

definition string_or_absent :: "json option \<Rightarrow> bool" where
  "string_or_absent v = (case v of None \<Rightarrow> True | Some (JStr s) \<Rightarrow> True | _ \<Rightarrow> False)"

section \<open>The schema resource and its evaluator\<close>

text \<open>
  Neither \<^verbatim>\<open>schemas/istvon_schema.json\<close> nor the \<^verbatim>\<open>jsonschema\<close> library is among the
  sources. Both are modelled here from the specification and are used where a concrete
  schema and a concrete evaluator are needed; the definitions of the validator above do
  not depend on them.
\<close>

text \<open>
  Modelled from the spec: the evaluation of a schema against an instance (the
  \<^verbatim>\<open>jsonschema\<close> library is missing). It supports the constraint kinds the specification
  names: \<^verbatim>\<open>type\<close>, \<^verbatim>\<open>enum\<close>, \<^verbatim>\<open>required\<close>, and the nested shapes \<^verbatim>\<open>properties\<close> of an object
  and \<^verbatim>\<open>items\<close> of an array. It reports the first failing constraint with the path to it;
  the message names the constraint kind.
\<close>

fun json_has_type :: "string \<Rightarrow> json \<Rightarrow> bool" where
  "json_has_type t (JObj d) = (t = ''object'')"
| "json_has_type t (JArr xs) = (t = ''array'')"
| "json_has_type t (JStr s) = (t = ''string'')"
| "json_has_type t (JInt n) = (t = ''integer'' \<or> t = ''number'')"
| "json_has_type t (JBool b) = (t = ''boolean'')"
| "json_has_type t JNull = (t = ''null'')"

type_synonym failure = "path_elem list \<times> string"

definition type_failure :: "dict \<Rightarrow> json \<Rightarrow> failure option" where
  "type_failure kws inst =
     (case dict_get kws ''type'' of
        Some (JStr t) \<Rightarrow> if json_has_type t inst then None else Some ([], ''type'')
      | _ \<Rightarrow> None)"

definition enum_failure :: "dict \<Rightarrow> json \<Rightarrow> failure option" where
  "enum_failure kws inst =
     (case dict_get kws ''enum'' of
        Some (JArr allowed) \<Rightarrow> if inst \<in> set allowed then None else Some ([], ''enum'')
      | _ \<Rightarrow> None)"

definition required_failure :: "dict \<Rightarrow> json \<Rightarrow> failure option" where
  "required_failure kws inst =
     (case (dict_get kws ''required'', inst) of
        (Some (JArr ks), JObj d) \<Rightarrow>
          (if list_all (dict_has d) (json_strings ks) then None else Some ([], ''required''))
      | _ \<Rightarrow> None)"

definition local_failure :: "dict \<Rightarrow> json \<Rightarrow> failure option" where
  "local_failure kws inst =
     (case type_failure kws inst of
        Some e \<Rightarrow> Some e
      | None \<Rightarrow>
          (case enum_failure kws inst of
             Some e \<Rightarrow> Some e
           | None \<Rightarrow> required_failure kws inst))"

definition sub_properties :: "dict \<Rightarrow> dict" where
  "sub_properties kws =
     (case dict_get kws ''properties'' of Some (JObj props) \<Rightarrow> props | _ \<Rightarrow> [])"

lemma dict_get_size:
  "dict_get d k = Some v \<Longrightarrow> size v < Suc (size_list (size_prod (\<lambda>_. 0) size) d)"
  by (induction d) (auto simp: dict_get_def split: if_splits)

lemma sub_properties_size:
  "size_list (size_prod (\<lambda>_. 0) size) (sub_properties kws)
     < Suc (size_list (size_prod (\<lambda>_. 0) size) kws)"
proof (cases "dict_get kws ''properties''")
  case None
  then show ?thesis by (simp add: sub_properties_def)
next
  case (Some v)
  then show ?thesis
    using dict_get_size [OF Some] by (cases v) (simp_all add: sub_properties_def)
qed

function check :: "json \<Rightarrow> json \<Rightarrow> failure option"
  and check_props :: "dict \<Rightarrow> json \<Rightarrow> failure option"
  and check_items :: "json \<Rightarrow> json list \<Rightarrow> nat \<Rightarrow> failure option"
where
  "check schema inst =
     (case schema of
        JObj kws \<Rightarrow>
          (case local_failure kws inst of
             Some e \<Rightarrow> Some e
           | None \<Rightarrow>
               (case check_props (sub_properties kws) inst of
                  Some e \<Rightarrow> Some e
                | None \<Rightarrow>
                    (case dict_get kws ''items'' of
                       None \<Rightarrow> None
                     | Some sub \<Rightarrow>
                         (case inst of JArr xs \<Rightarrow> check_items sub xs 0 | _ \<Rightarrow> None))))
      | _ \<Rightarrow> None)"
| "check_props [] inst = None"
| "check_props ((k, sub) # props) inst =
     (case inst of
        JObj d \<Rightarrow>
          (case dict_get d k of
             None \<Rightarrow> check_props props inst
           | Some v \<Rightarrow>
               (case check sub v of
                  Some (path, msg) \<Rightarrow> Some (Key k # path, msg)
                | None \<Rightarrow> check_props props inst))
      | _ \<Rightarrow> None)"
| "check_items sub [] i = None"
| "check_items sub (x # xs) i =
     (case check sub x of
        Some (path, msg) \<Rightarrow> Some (Index i # path, msg)
      | None \<Rightarrow> check_items sub xs (Suc i))"
  by pat_completeness auto
termination
  apply (relation "measures
     [\<lambda>a. case a of
        Inl (s, _) \<Rightarrow> size s
      | Inr (Inl (props, _)) \<Rightarrow> size_list (size_prod (\<lambda>_. 0) size) props
      | Inr (Inr (s, _, _)) \<Rightarrow> size s,
      \<lambda>a. case a of
        Inl _ \<Rightarrow> 0
      | Inr (Inl _) \<Rightarrow> 0
      | Inr (Inr (_, xs, _)) \<Rightarrow> Suc (length xs)]")
         apply (auto simp: sub_properties_size dest: dict_get_size)
  done

definition jsonschema_validate :: validate_fn where
  "jsonschema_validate inst schema =
     (case check schema inst of
        None \<Rightarrow> Valid
      | Some (path, msg) \<Rightarrow> ValidationError path msg)"

text \<open>
  Modelled from the spec: the schema resource \<^verbatim>\<open>istvon_schema.json\<close> (missing from the
  sources). It requires the six keys and gives each field the shape of the data model:
  \<^verbatim>\<open>instructions\<close> a string; \<^verbatim>\<open>source_data\<close> a list of descriptors with \<^verbatim>\<open>type\<close> and
  \<^verbatim>\<open>source\<close>; \<^verbatim>\<open>tools\<close> a list of descriptors with \<^verbatim>\<open>name\<close>; \<^verbatim>\<open>variables\<close> a mapping with
  its recognized keys, others permitted; \<^verbatim>\<open>outcome\<close> with \<^verbatim>\<open>format\<close> and \<^verbatim>\<open>delivery\<close>;
  \<^verbatim>\<open>notification\<close> with \<^verbatim>\<open>method\<close> and \<^verbatim>\<open>trigger\<close>. The enumerated fields are \<^verbatim>\<open>tone\<close>,
  \<^verbatim>\<open>priority\<close>, \<^verbatim>\<open>format\<close>, \<^verbatim>\<open>delivery\<close>, \<^verbatim>\<open>method\<close>, \<^verbatim>\<open>trigger\<close> and the descriptor \<^verbatim>\<open>type\<close>.
  The specification does not list the declared value sets, so they are a parameter.
\<close>

record value_sets =
  tone_values :: "string list"
  priority_values :: "string list"
  format_values :: "string list"
  delivery_values :: "string list"
  method_values :: "string list"
  trigger_values :: "string list"
  type_values :: "string list"

definition string_schema :: json where
  "string_schema = JObj [(''type'', JStr ''string'')]"

definition enum_schema :: "string list \<Rightarrow> json" where
  "enum_schema values = JObj [(''type'', JStr ''string''), (''enum'', JArr (map JStr values))]"

definition source_descriptor_schema :: "value_sets \<Rightarrow> json" where
  "source_descriptor_schema vs =
     JObj [(''type'', JStr ''object''),
           (''required'', JArr [JStr ''type'', JStr ''source'']),
           (''properties'',
            JObj [(''type'', enum_schema (type_values vs)),
                  (''source'', string_schema),
                  (''description'', string_schema),
                  (''required'', JObj [(''type'', JStr ''boolean'')])])]"

definition source_data_schema :: "value_sets \<Rightarrow> json" where
  "source_data_schema vs =
     JObj [(''type'', JStr ''array''), (''items'', source_descriptor_schema vs)]"

definition tool_descriptor_schema :: json where
  "tool_descriptor_schema =
     JObj [(''type'', JStr ''object''),
           (''required'', JArr [JStr ''name'']),
           (''properties'',
            JObj [(''name'', string_schema),
                  (''version'', string_schema),
                  (''parameters'', JObj [(''type'', JStr ''object'')])])]"

definition tools_schema :: json where
  "tools_schema = JObj [(''type'', JStr ''array''), (''items'', tool_descriptor_schema)]"

definition variables_props :: "value_sets \<Rightarrow> dict" where
  "variables_props vs =
     [(''topic'', string_schema),
      (''tone'', enum_schema (tone_values vs)),
      (''length'', string_schema),
      (''target_audience'', string_schema),
      (''priority'', enum_schema (priority_values vs)),
      (''language'', string_schema)]"

definition variables_schema :: "value_sets \<Rightarrow> json" where
  "variables_schema vs =
     JObj [(''type'', JStr ''object''), (''properties'', JObj (variables_props vs))]"

definition outcome_schema :: "value_sets \<Rightarrow> json" where
  "outcome_schema vs =
     JObj [(''type'', JStr ''object''),
           (''required'', JArr [JStr ''format'', JStr ''delivery'']),
           (''properties'',
            JObj [(''format'', enum_schema (format_values vs)),
                  (''delivery'', enum_schema (delivery_values vs)),
                  (''filename'', string_schema),
                  (''destination'', string_schema)])]"

definition notification_schema :: "value_sets \<Rightarrow> json" where
  "notification_schema vs =
     JObj [(''type'', JStr ''object''),
           (''required'', JArr [JStr ''method'', JStr ''trigger'']),
           (''properties'',
            JObj [(''method'', enum_schema (method_values vs)),
                  (''trigger'', enum_schema (trigger_values vs)),
                  (''recipient'', string_schema),
                  (''message_template'', string_schema)])]"

definition istvon_props :: "value_sets \<Rightarrow> dict" where
  "istvon_props vs =
     [(''instructions'', string_schema),
      (''source_data'', source_data_schema vs),
      (''tools'', tools_schema),
      (''variables'', variables_schema vs),
      (''outcome'', outcome_schema vs),
      (''notification'', notification_schema vs)]"

definition istvon_schema :: "value_sets \<Rightarrow> schema" where
  "istvon_schema vs =
     [(''type'', JStr ''object''),
      (''required'', JArr (map JStr required_keys)),
      (''properties'', JObj (istvon_props vs))]"

text \<open>
  The values the specification names for the enumerated fields, in its description of
  the mapper and of the minimal record.
\<close>

definition named_values :: value_sets where
  "named_values =
     \<lparr>tone_values = [''professional'', ''casual'', ''formal'', ''friendly'', ''technical''],
      priority_values = [''medium''],
      format_values = [''plain_text'', ''markdown'', ''pdf'', ''html'', ''docx''],
      delivery_values = [''display'', ''save_to_file''],
      method_values = [''none'', ''email'', ''in_app''],
      trigger_values = [''on_completion''],
      type_values = [''none'', ''knowledge_base'']\<rparr>"

text \<open>A declaration of value sets that has at least the named values.\<close>

definition declares_named_values :: "value_sets \<Rightarrow> bool" where
  "declares_named_values vs =
     (set (tone_values named_values) \<subseteq> set (tone_values vs)
      \<and> set (priority_values named_values) \<subseteq> set (priority_values vs)
      \<and> set (format_values named_values) \<subseteq> set (format_values vs)
      \<and> set (delivery_values named_values) \<subseteq> set (delivery_values vs)
      \<and> set (method_values named_values) \<subseteq> set (method_values vs)
      \<and> set (trigger_values named_values) \<subseteq> set (trigger_values vs)
      \<and> set (type_values named_values) \<subseteq> set (type_values vs))"

section \<open>ISTVONBuilder (validators.py)\<close>

text \<open>
  The builder mutates its record in place, and \<^verbatim>\<open>build\<close> hands out \<^verbatim>\<open>self.istvon.copy()\<close>, a
  new dict whose values are the same objects as those of the builder's dict. What a
  caller sees in a record it was given therefore depends on which objects are shared, so
  the lists and dicts held by the record live in a store, and the record itself holds
  their addresses. The store keeps lists and dicts apart; an address not yet handed out
  holds an empty container. The descriptors inside the lists are never changed once
  appended and are kept by value.
\<close>

type_synonym addr = nat

record store =
  lists :: "addr \<Rightarrow> dict list"
  dicts :: "addr \<Rightarrow> dict"
  fresh :: addr

text \<open>A dict with the six keys of a record: the string, and the five containers.\<close>

record istvon_obj =
  instructions_val :: string
  source_data_ref :: addr
  tools_ref :: addr
  variables_ref :: addr
  outcome_ref :: addr
  notification_ref :: addr

record builder =
  objects :: store
  istvon :: istvon_obj

text \<open>A list or dict display: a new object.\<close>

definition new_list :: "dict list \<Rightarrow> store \<Rightarrow> addr \<times> store" where
  "new_list xs h = (fresh h, h\<lparr>lists := (lists h)(fresh h := xs), fresh := Suc (fresh h)\<rparr>)"

definition new_dict :: "dict \<Rightarrow> store \<Rightarrow> addr \<times> store" where
  "new_dict d h = (fresh h, h\<lparr>dicts := (dicts h)(fresh h := d), fresh := Suc (fresh h)\<rparr>)"

text \<open>\<^verbatim>\<open>xs.append(x)\<close> and \<^verbatim>\<open>d.update(other)\<close> on the object at an address.\<close>

definition list_append :: "addr \<Rightarrow> dict \<Rightarrow> store \<Rightarrow> store" where
  "list_append a x h = h\<lparr>lists := (lists h)(a := lists h a @ [x])\<rparr>"

definition dict_update_at :: "addr \<Rightarrow> dict \<Rightarrow> store \<Rightarrow> store" where
  "dict_update_at a other h = h\<lparr>dicts := (dicts h)(a := dict_update (dicts h a) other)\<rparr>"

text \<open>The record a dict of the six keys denotes in a store, as a value.\<close>

definition snapshot :: "store \<Rightarrow> istvon_obj \<Rightarrow> dict" where
  "snapshot h r =
     [(''instructions'', JStr (instructions_val r)),
      (''source_data'', JArr (map JObj (lists h (source_data_ref r)))),
      (''tools'', JArr (map JObj (lists h (tools_ref r)))),
      (''variables'', JObj (dicts h (variables_ref r))),
      (''outcome'', JObj (dicts h (outcome_ref r))),
      (''notification'', JObj (dicts h (notification_ref r)))]"

text \<open>\<^verbatim>\<open>__init__\<close>: the record is \<^verbatim>\<open>create_minimal_istvon("")\<close>, with new containers.\<close>

definition empty_store :: store where
  "empty_store = \<lparr>lists = (\<lambda>a. []), dicts = (\<lambda>a. []), fresh = 0\<rparr>"

definition new_builder :: builder where
  "new_builder =
     (let h = empty_store;
          (sd, h) = new_list [[(''type'', JStr ''none''),
                               (''source'', JStr ''general_knowledge'')]] h;
          (tl, h) = new_list [[(''name'', JStr ''text_generation'')]] h;
          (vs, h) = new_dict [(''tone'', JStr ''professional''),
                              (''priority'', JStr ''medium'')] h;
          (oc, h) = new_dict [(''format'', JStr ''plain_text''),
                              (''delivery'', JStr ''display'')] h;
          (nt, h) = new_dict [(''method'', JStr ''none''),
                              (''trigger'', JStr ''on_completion'')] h
      in \<lparr>objects = h,
          istvon = \<lparr>instructions_val = [], source_data_ref = sd, tools_ref = tl,
                    variables_ref = vs, outcome_ref = oc, notification_ref = nt\<rparr>\<rparr>)"

definition set_instructions :: "string \<Rightarrow> builder \<Rightarrow> builder" where
  "set_instructions instructions b = b\<lparr>istvon := (istvon b)\<lparr>instructions_val := instructions\<rparr>\<rparr>"

text \<open>
  \<^verbatim>\<open>add_source_data\<close>: a lone entry of type \<^verbatim>\<open>none\<close> is dropped by binding the key to a new
  empty list; the descriptor is then appended to the list the key holds.
\<close>

definition add_source_data :: "string \<Rightarrow> string \<Rightarrow> string \<Rightarrow> bool \<Rightarrow> builder \<Rightarrow> builder" where
  "add_source_data source_type source description required b =
     (let current = lists (objects b) (source_data_ref (istvon b));
          b = (if current \<noteq> [] \<and> length current = 1
                  \<and> dict_get (hd current) ''type'' = Some (JStr ''none'')
               then (let (a, h) = new_list [] (objects b)
                     in b\<lparr>objects := h, istvon := (istvon b)\<lparr>source_data_ref := a\<rparr>\<rparr>)
               else b);
          source_item = [(''type'', JStr source_type),
                         (''source'', JStr source),
                         (''required'', JBool required)];
          source_item = (if description \<noteq> []
                         then dict_set source_item ''description'' (JStr description)
                         else source_item)
      in b\<lparr>objects := list_append (source_data_ref (istvon b)) source_item (objects b)\<rparr>)"

definition clear_tools :: "builder \<Rightarrow> builder" where
  "clear_tools b =
     (let (a, h) = new_list [] (objects b)
      in b\<lparr>objects := h, istvon := (istvon b)\<lparr>tools_ref := a\<rparr>\<rparr>)"

text \<open>
  \<^verbatim>\<open>add_tool\<close>: \<^verbatim>\<open>version\<close> and \<^verbatim>\<open>parameters\<close> default to \<^verbatim>\<open>None\<close> and are stored when truthy.
\<close>

definition add_tool :: "string \<Rightarrow> string option \<Rightarrow> dict option \<Rightarrow> builder \<Rightarrow> builder" where
  "add_tool tool_name version parameters b =
     (let tool_item = [(''name'', JStr tool_name)];
          tool_item = (case version of
                         Some v \<Rightarrow> if v \<noteq> [] then dict_set tool_item ''version'' (JStr v)
                                   else tool_item
                       | None \<Rightarrow> tool_item);
          tool_item = (case parameters of
                         Some p \<Rightarrow> if p \<noteq> [] then dict_set tool_item ''parameters'' (JObj p)
                                   else tool_item
                       | None \<Rightarrow> tool_item)
      in b\<lparr>objects := list_append (tools_ref (istvon b)) tool_item (objects b)\<rparr>)"

definition set_variables :: "dict \<Rightarrow> builder \<Rightarrow> builder" where
  "set_variables variables b =
     b\<lparr>objects := dict_update_at (variables_ref (istvon b)) variables (objects b)\<rparr>"

definition set_outcome ::
  "string \<Rightarrow> string \<Rightarrow> string option \<Rightarrow> string option \<Rightarrow> dict \<Rightarrow> builder \<Rightarrow> builder" where
  "set_outcome format_type delivery filename destination other_options b =
     (let outcome = [(''format'', JStr format_type), (''delivery'', JStr delivery)];
          outcome = (case filename of
                       Some f \<Rightarrow> if f \<noteq> [] then dict_set outcome ''filename'' (JStr f)
                                 else outcome
                     | None \<Rightarrow> outcome);
          outcome = (case destination of
                       Some d \<Rightarrow> if d \<noteq> [] then dict_set outcome ''destination'' (JStr d)
                                 else outcome
                     | None \<Rightarrow> outcome);
          (a, h) = new_dict (dict_update outcome other_options) (objects b)
      in b\<lparr>objects := h, istvon := (istvon b)\<lparr>outcome_ref := a\<rparr>\<rparr>)"

definition set_notification ::
  "string \<Rightarrow> string option \<Rightarrow> string \<Rightarrow> string option \<Rightarrow> builder \<Rightarrow> builder" where
  "set_notification method recipient trigger message_template b =
     (let notification = [(''method'', JStr method), (''trigger'', JStr trigger)];
          notification = (case recipient of
                            Some r \<Rightarrow> if r \<noteq> []
                                      then dict_set notification ''recipient'' (JStr r)
                                      else notification
                          | None \<Rightarrow> notification);
          notification = (case message_template of
                            Some m \<Rightarrow> if m \<noteq> []
                                      then dict_set notification ''message_template'' (JStr m)
                                      else notification
                          | None \<Rightarrow> notification);
          (a, h) = new_dict notification (objects b)
      in b\<lparr>objects := h, istvon := (istvon b)\<lparr>notification_ref := a\<rparr>\<rparr>)"

text \<open>
  \<^verbatim>\<open>build\<close>: the result is the error raised or the copy returned, beside the builder as the
  call leaves it. The copy is a dict with the bindings of the builder's dict: the same
  string and the same five addresses.
\<close>

definition build :: "validate_fn \<Rightarrow> schema \<Rightarrow> builder \<Rightarrow> (py_error + istvon_obj) \<times> builder" where
  "build validate schema b =
     (case validate_istvon validate schema (snapshot (objects b) (istvon b)) of
        (is_valid, error) \<Rightarrow>
          if \<not> is_valid
          then (Inl (ValueError (''Invalid ISTVON structure: ''
                                   @ (case error of Some e \<Rightarrow> e | None \<Rightarrow> ''None''))), b)
          else (Inr (istvon b), b))"

definition build_partial ::
  "validate_fn \<Rightarrow> schema \<Rightarrow> builder \<Rightarrow> (py_error + istvon_obj \<times> bool \<times> string list) \<times> builder"
where
  "build_partial validate schema b =
     (case validate_partial validate schema (snapshot (objects b) (istvon b)) False of
        Inl e \<Rightarrow> (Inl e, b)
      | Inr (is_valid, errors) \<Rightarrow> (Inr (istvon b, is_valid, errors), b))"

text \<open>A builder whose outcome format is not a declared value.\<close>

definition xml_builder :: builder where
  "xml_builder = set_outcome ''xml'' ''display'' None None [] new_builder"

text \<open>
  The descriptor the specification gives for \<^verbatim>\<open>add_source_data\<close>: type, source and the
  required flag, and the description when it is not empty.
\<close>

definition source_descriptor :: "string \<Rightarrow> string \<Rightarrow> string \<Rightarrow> bool \<Rightarrow> dict" where
  "source_descriptor source_type source description required =
     [(''type'', JStr source_type), (''source'', JStr source), (''required'', JBool required)]
     @ (if description = [] then [] else [(''description'', JStr description)])"

text \<open>The \<^verbatim>\<open>tools\<close> entry a caller reads in a record it holds.\<close>

definition tools_of :: "store \<Rightarrow> istvon_obj \<Rightarrow> json option" where
  "tools_of h r = dict_get (snapshot h r) ''tools''"

text \<open>A new builder after \<^verbatim>\<open>build()\<close> and then \<^verbatim>\<open>add_tool("web_search")\<close>.\<close>

definition after_add_tool :: builder where
  "after_add_tool =
     add_tool ''web_search'' None None
       (snd (build jsonschema_validate (istvon_schema named_values) new_builder))"

section \<open>Basic facts\<close>

subsection \<open>Dicts\<close>

lemma dict_get_Nil: "dict_get [] k = None"
  by (simp add: dict_get_def)

lemma dict_get_dict_set:
  "dict_get (dict_set d k v) k' = (if k' = k then Some v else dict_get d k')"
  by (induction d) (auto simp: dict_get_def)

lemma find_in_set: "find P xs = Some x \<Longrightarrow> x \<in> set xs"
  by (induction xs) (auto split: if_splits)

subsection \<open>The steps of variable extraction leave the other keys alone\<close>

lemma extract_topic_other: "k \<noteq> ''topic'' \<Longrightarrow> dict_get (extract_topic p d) k = dict_get d k"
  by (simp add: extract_topic_def dict_get_dict_set Let_def split: option.splits)

lemma extract_length_other: "k \<noteq> ''length'' \<Longrightarrow> dict_get (extract_length p d) k = dict_get d k"
  by (simp add: extract_length_def dict_get_dict_set split: option.splits prod.splits)

lemma extract_audience_other:
  "k \<noteq> ''target_audience'' \<Longrightarrow> dict_get (extract_audience p d) k = dict_get d k"
  by (simp add: extract_audience_def dict_get_dict_set split: option.splits)

lemma extract_tone_other: "k \<noteq> ''tone'' \<Longrightarrow> dict_get (extract_tone p d) k = dict_get d k"
  by (simp add: extract_tone_def dict_get_dict_set split: option.splits prod.splits)

subsection \<open>What a clause capture returns\<close>

text \<open>
  A successful search splits the text into what comes before the match, the keyword in
  some casing, a run of whitespace, the captured group, and the rest; the group is not
  empty, holds no clause boundary, and is followed by a clause boundary or by the end of
  the text.
\<close>

lemma take_takeWhile_all: "k \<le> length (takeWhile P xs) \<Longrightarrow> list_all P (take k xs)"
proof (induction xs arbitrary: k)
  case Nil
  then show ?case by simp
next
  case (Cons x xs)
  then show ?case
    by (cases k) (auto split: if_splits)
qed

lemma takeWhile_all: "list_all P (takeWhile P xs)"
  by (induction xs) simp_all

lemma boundary_next_dropWhile: "boundary_next (dropWhile clause_char xs)"
  by (induction xs) (simp_all add: boundary_next_def)

lemma capture_clause_Some:
  assumes "capture_clause rest = Some g"
  shows "\<exists>ws post. rest = ws @ g @ post \<and> ws \<noteq> [] \<and> list_all py_isspace ws
           \<and> g \<noteq> [] \<and> list_all clause_char g \<and> boundary_next post"
proof -
  define n where "n = length (takeWhile py_isspace rest)"
  from assms obtain k ks
    where f: "filter (\<lambda>k. k < length rest \<and> clause_char (rest ! k)) (rev [1..<Suc n]) = k # ks"
      and g: "g = takeWhile clause_char (drop k rest)"
    by (auto simp: capture_clause_def n_def Let_def split: list.splits)
  have "k \<in> set (filter (\<lambda>k. k < length rest \<and> clause_char (rest ! k)) (rev [1..<Suc n]))"
    unfolding f by simp
  then have k: "1 \<le> k" "k \<le> n" "k < length rest" "clause_char (rest ! k)"
    by auto
  have split: "rest = take k rest @ g @ dropWhile clause_char (drop k rest)"
    by (simp add: g)
  have ws: "list_all py_isspace (take k rest)"
    using k(2) unfolding n_def by (rule take_takeWhile_all)
  from k(1,3) have wsne: "take k rest \<noteq> []"
    by auto
  from k(3) have "drop k rest = rest ! k # drop (Suc k) rest"
    by (simp add: Cons_nth_drop_Suc)
  with k(4) have gne: "g \<noteq> []"
    by (simp add: g)
  have gall: "list_all clause_char g"
    unfolding g by (rule takeWhile_all)
  from split wsne ws gne gall boundary_next_dropWhile [of "drop k rest"] show ?thesis
    by blast
qed

lemma search_clause_Some:
  "search_clause kw s = Some g \<Longrightarrow>
   \<exists>pre m ws post. s = pre @ m @ ws @ g @ post \<and> lower m = kw
      \<and> ws \<noteq> [] \<and> list_all py_isspace ws
      \<and> g \<noteq> [] \<and> list_all clause_char g \<and> boundary_next post"
proof (induction kw s rule: search_clause.induct)
  case (1 kw)
  then show ?case by simp
next
  case (2 kw c cs)
  show ?case
  proof (cases "istartswith kw (c # cs) \<and> capture_clause (drop (length kw) (c # cs)) \<noteq> None")
    case True
    with "2.prems" have cap: "capture_clause (drop (length kw) (c # cs)) = Some g"
      by (auto split: option.splits)
    from capture_clause_Some [OF cap] obtain ws post
      where r: "drop (length kw) (c # cs) = ws @ g @ post"
        and rest: "ws \<noteq> []" "list_all py_isspace ws" "g \<noteq> []" "list_all clause_char g"
          "boundary_next post"
      by blast
    from True have m: "lower (take (length kw) (c # cs)) = kw"
      by (simp add: istartswith_def)
    have "c # cs = [] @ take (length kw) (c # cs) @ ws @ g @ post"
      using r by (metis append_Nil append_take_drop_id)
    with m rest show ?thesis
      by blast
  next
    case False
    with "2.prems" have "search_clause kw cs = Some g"
      by (auto split: option.splits if_splits)
    moreover from False have "\<not> istartswith kw (c # cs)
        \<or> capture_clause (drop (length kw) (c # cs)) = None"
      by simp
    ultimately obtain pre m ws post
      where "cs = pre @ m @ ws @ g @ post" "lower m = kw" "ws \<noteq> []" "list_all py_isspace ws"
        "g \<noteq> []" "list_all clause_char g" "boundary_next post"
      using "2.IH" by (metis option.distinct(1))
    then have "c # cs = (c # pre) @ m @ ws @ g @ post" by simp
    with \<open>lower m = kw\<close> \<open>ws \<noteq> []\<close> \<open>list_all py_isspace ws\<close> \<open>g \<noteq> []\<close>
      \<open>list_all clause_char g\<close> \<open>boundary_next post\<close>
    show ?thesis by blast
  qed
qed

section \<open>Properties of the mapper\<close>

subsection \<open>Extraction on the blog-post prompt\<close>

lemma blog_variables:
  "extract_variables ''Write a blog post about quantum computing for beginners'' =
     [(''topic'', JStr ''quantum computing for beginners''),
      (''tone'', JStr ''professional''),
      (''target_audience'', JStr ''beginners''),
      (''priority'', JStr ''medium''), (''language'', JStr ''en'')]"
  by code_simp

lemma blog_outcome:
  "extract_outcome (lower ''Write a blog post about quantum computing for beginners'') =
     [(''format'', JStr ''markdown''), (''delivery'', JStr ''display'')]"
  by code_simp

lemma topic_of_capture:
  "search_clause ''about'' p = Some g \<Longrightarrow>
   field2 (convert_to_istvon slot p) ''variables'' ''topic'' = Some (JStr (py_strip g))"
proof -
  assume "search_clause ''about'' p = Some g"
  then have "dict_get (extract_topic p []) ''topic'' = Some (JStr (py_strip g))"
    by (simp add: extract_topic_def dict_get_def)
  then have "dict_get (extract_variables p) ''topic'' = Some (JStr (py_strip g))"
    by (simp add: extract_variables_def dict_get_dict_set extract_audience_other
        extract_length_other extract_tone_other)
  then show ?thesis
    by (simp add: field2_def convert_to_istvon_def dict_get_def Let_def)
qed

lemma blog_about:
  "search_clause ''about'' ''Write a blog post about quantum computing for beginners''
     = Some ''quantum computing for beginners''"
  by code_simp

lemma blog_strip:
  "py_strip ''quantum computing for beginners'' = ''quantum computing for beginners''"
  by code_simp

text \<open>
  Claim C1, as amended. For the prompt
  \<^verbatim>\<open>Write a blog post about quantum computing for beginners\<close> the mapper's record has
  \<^verbatim>\<open>variables.topic\<close> equal to \<^verbatim>\<open>quantum computing for beginners\<close>,
  \<^verbatim>\<open>variables.target_audience\<close> equal to \<^verbatim>\<open>beginners\<close> and \<^verbatim>\<open>outcome.format\<close> equal to
  \<^verbatim>\<open>markdown\<close>, under every set iteration order. For every prompt in which the pattern
  finds a match, the topic is the captured text, trimmed, where the captured text follows
  the word \<^verbatim>\<open>about\<close> (in any casing) and whitespace, is not empty, holds no clause
  boundary character and runs up to the next one or to the end of the prompt.
\<close>

theorem blog_post_extraction:
  "field2 (convert_to_istvon slot ''Write a blog post about quantum computing for beginners'')
      ''variables'' ''topic'' = Some (JStr ''quantum computing for beginners'')
   \<and> field2 (convert_to_istvon slot ''Write a blog post about quantum computing for beginners'')
      ''variables'' ''target_audience'' = Some (JStr ''beginners'')
   \<and> field2 (convert_to_istvon slot ''Write a blog post about quantum computing for beginners'')
      ''outcome'' ''format'' = Some (JStr ''markdown'')
   \<and> (search_clause ''about'' p = Some g \<longrightarrow>
        field2 (convert_to_istvon slot p) ''variables'' ''topic'' = Some (JStr (py_strip g))
        \<and> (\<exists>pre m ws post. p = pre @ m @ ws @ g @ post \<and> lower m = ''about''
              \<and> ws \<noteq> [] \<and> list_all py_isspace ws
              \<and> g \<noteq> [] \<and> list_all clause_char g \<and> boundary_next post))"
proof -
  let ?blog = "''Write a blog post about quantum computing for beginners''"
  have topic: "field2 (convert_to_istvon slot ?blog) ''variables'' ''topic''
                 = Some (JStr ''quantum computing for beginners'')"
    by (simp add: convert_to_istvon_def field2_def dict_get_def blog_variables Let_def)
  have audience: "field2 (convert_to_istvon slot ?blog) ''variables'' ''target_audience''
                    = Some (JStr ''beginners'')"
    by (simp add: convert_to_istvon_def field2_def dict_get_def blog_variables Let_def)
  have format: "field2 (convert_to_istvon slot ?blog) ''outcome'' ''format''
                  = Some (JStr ''markdown'')"
    by (simp add: convert_to_istvon_def field2_def dict_get_def blog_outcome Let_def)
  have rule: "search_clause ''about'' p = Some g \<longrightarrow>
        field2 (convert_to_istvon slot p) ''variables'' ''topic'' = Some (JStr (py_strip g))
        \<and> (\<exists>pre m ws post. p = pre @ m @ ws @ g @ post \<and> lower m = ''about''
              \<and> ws \<noteq> [] \<and> list_all py_isspace ws
              \<and> g \<noteq> [] \<and> list_all clause_char g \<and> boundary_next post)"
    using topic_of_capture [of p g slot] search_clause_Some [of "''about''" p g]
    by (intro impI conjI) assumption+
  show ?thesis
    by (intro conjI) (fact topic audience format rule)+
qed

text \<open>
  The same at one concrete iteration order; the capture on the blog-post prompt runs to
  the end of the prompt.
\<close>

theorem blog_post_extraction_witness:
  "field2 (convert_to_istvon seed_b ''Write a blog post about quantum computing for beginners'')
      ''variables'' ''topic'' = Some (JStr (py_strip ''quantum computing for beginners''))
   \<and> field2 (convert_to_istvon seed_b ''Write a blog post about quantum computing for beginners'')
      ''outcome'' ''format'' = Some (JStr ''markdown'')"
  using blog_post_extraction
    [of seed_b "''Write a blog post about quantum computing for beginners''"
        "''quantum computing for beginners''"]
    blog_about
  by (simp add: blog_strip)

text \<open>
  The topic the specification gives for this prompt, \<^verbatim>\<open>quantum computing\<close>, is not the
  one the mapper extracts.
\<close>

theorem blog_post_topic_counterexample:
  "field2 (convert_to_istvon seed_a ''Write a blog post about quantum computing for beginners'')
      ''variables'' ''topic'' \<noteq> Some (JStr ''quantum computing'')"
  by (simp add: convert_to_istvon_def field2_def dict_get_def blog_variables Let_def)

subsection \<open>The tools list\<close>

lemma scan_keywords_distinct:
  "distinct found \<Longrightarrow> distinct (scan_keywords table prompt found)"
  by (induction table prompt found rule: scan_keywords.induct) (auto simp: set_add_def)

lemma scan_keywords_set:
  "set (scan_keywords table prompt found) =
     set found \<union> set (map snd (filter (\<lambda>(keyword, tool). py_in keyword prompt) table))"
  by (induction table prompt found rule: scan_keywords.induct) (auto simp: set_add_def)

lemma found_tools_distinct: "distinct (found_tools prompt)"
  by (simp add: found_tools_def scan_keywords_distinct)

lemma found_tools_set: "set (found_tools prompt) = matched_categories prompt"
  by (simp add: found_tools_def scan_keywords_set matched_categories_def)

lemma tool_names_map: "tool_names (map (\<lambda>tool. JObj [(''name'', JStr tool)]) xs) = xs"
  by (induction xs) (simp_all add: dict_get_def)

lemma set_iter_Nil_iff: "(set_iter slot xs = []) = (xs = [])"
  using length_sort [of slot xs] unfolding set_iter_def by (metis length_0_conv)

lemma tool_names_extract:
  "tool_names (extract_tools slot prompt) =
     (if found_tools prompt = [] then [''text_generation'']
      else set_iter slot (found_tools prompt))"
  by (simp add: extract_tools_def Let_def tool_names_map set_iter_Nil_iff dict_get_def)

lemma mapper_tools_eq: "mapper_tools slot p = extract_tools slot (lower p)"
  by (simp add: mapper_tools_def convert_to_istvon_def dict_get_def Let_def)

lemma mapper_tool_names:
  "tool_names (mapper_tools slot q) =
     (if found_tools (lower q) = [] then [''text_generation'']
      else set_iter slot (found_tools (lower q)))"
  by (simp add: mapper_tools_eq tool_names_extract)

lemma analyze_found:
  "found_tools (lower ''Analyze and summarize this data'') =
     [''data_analysis'', ''summarization'']"
  by code_simp

lemma code_summary_found:
  "found_tools (lower ''Write code and create a summary'') =
     [''text_generation'', ''code_generation'']"
  by code_simp

lemma hi_found: "found_tools (lower ''hi'') = []"
  by code_simp

text \<open>
  Claim C7. For every prompt and every set iteration order, the mapper's tools list has
  no repeated entry and no repeated tool name; when some keyword matches, its names are
  exactly the matched categories; when none matches, it is the single default entry
  \<^verbatim>\<open>{name: text_generation}\<close>. For \<^verbatim>\<open>Analyze and summarize this data\<close> the set of tool
  names is \<^verbatim>\<open>{data_analysis, summarization}\<close>.
\<close>

theorem tools_distinct_categories:
  "distinct (mapper_tools slot p)
   \<and> distinct (tool_names (mapper_tools slot p))
   \<and> (matched_categories (lower p) \<noteq> {} \<longrightarrow>
        set (tool_names (mapper_tools slot p)) = matched_categories (lower p))
   \<and> (matched_categories (lower p) = {} \<longrightarrow>
        mapper_tools slot p = [JObj [(''name'', JStr ''text_generation'')]])
   \<and> set (tool_names (mapper_tools slot ''Analyze and summarize this data''))
        = {''data_analysis'', ''summarization''}"
proof -
  have d2: "distinct (tool_names (mapper_tools slot p))"
    by (simp add: mapper_tool_names set_iter_def found_tools_distinct)
  have d1: "distinct (mapper_tools slot p)"
    by (simp add: mapper_tools_eq extract_tools_def Let_def set_iter_def distinct_map
        found_tools_distinct inj_on_def)
  have s: "matched_categories (lower p) \<noteq> {} \<longrightarrow>
        set (tool_names (mapper_tools slot p)) = matched_categories (lower p)"
  proof
    assume "matched_categories (lower p) \<noteq> {}"
    then have "found_tools (lower p) \<noteq> []"
      unfolding found_tools_set [symmetric] by simp
    then show "set (tool_names (mapper_tools slot p)) = matched_categories (lower p)"
      by (simp add: mapper_tool_names set_iter_def found_tools_set)
  qed
  have e: "matched_categories (lower p) = {} \<longrightarrow>
        mapper_tools slot p = [JObj [(''name'', JStr ''text_generation'')]]"
  proof
    assume "matched_categories (lower p) = {}"
    then have "found_tools (lower p) = []"
      unfolding found_tools_set [symmetric] by simp
    then show "mapper_tools slot p = [JObj [(''name'', JStr ''text_generation'')]]"
      by (simp add: mapper_tools_eq extract_tools_def set_iter_def)
  qed
  have x: "set (tool_names (mapper_tools slot ''Analyze and summarize this data''))
        = {''data_analysis'', ''summarization''}"
    by (auto simp: mapper_tool_names analyze_found set_iter_def)
  show ?thesis
    by (intro conjI) (fact d1 d2 s e x)+
qed

text \<open>
  The theorem at a prompt with no keyword and at a prompt where three keywords match two
  categories.
\<close>

theorem tools_distinct_categories_witness:
  "mapper_tools seed_b ''hi'' = [JObj [(''name'', JStr ''text_generation'')]]
   \<and> set (tool_names (mapper_tools seed_b ''Write code and create a summary''))
        = {''text_generation'', ''code_generation''}"
proof -
  have m1: "matched_categories (lower ''hi'') = {}"
    using found_tools_set [of "lower ''hi''"] by (simp add: hi_found)
  have m2: "matched_categories (lower ''Write code and create a summary'')
              = {''text_generation'', ''code_generation''}"
    using found_tools_set [of "lower ''Write code and create a summary''"]
    by (simp add: code_summary_found)
  have a: "mapper_tools seed_b ''hi'' = [JObj [(''name'', JStr ''text_generation'')]]"
    using tools_distinct_categories [of seed_b "''hi''"] m1 by simp
  have b: "set (tool_names (mapper_tools seed_b ''Write code and create a summary''))
        = {''text_generation'', ''code_generation''}"
    using tools_distinct_categories [of seed_b "''Write code and create a summary''"] m2
    by simp
  show ?thesis
    by (intro conjI) (fact a b)+
qed

subsection \<open>Determinism\<close>

lemma extract_tools_mset:
  "mset (extract_tools s1 prompt) = mset (extract_tools s2 prompt)"
proof (cases "found_tools prompt = []")
  case True
  then show ?thesis
    by (simp add: extract_tools_def set_iter_def)
next
  case False
  then have "extract_tools s prompt =
      map (\<lambda>tool. JObj [(''name'', JStr tool)]) (set_iter s (found_tools prompt))" for s
    by (simp add: extract_tools_def Let_def set_iter_Nil_iff)
  then show ?thesis
    by (simp add: set_iter_def)
qed

lemma tool_entry_inj: "inj (\<lambda>tool. JObj [(''name'', JStr tool)])"
  by (simp add: inj_def)

lemma extract_tools_eq_iff:
  "(extract_tools s1 q = extract_tools s2 q)
     = (set_iter s1 (found_tools q) = set_iter s2 (found_tools q))"
proof (cases "found_tools q = []")
  case True
  then show ?thesis
    by (simp add: extract_tools_def set_iter_def)
next
  case False
  then have "extract_tools s q =
      map (\<lambda>tool. JObj [(''name'', JStr tool)]) (set_iter s (found_tools q))" for s
    by (simp add: extract_tools_def Let_def set_iter_Nil_iff)
  then show ?thesis
    by (simp add: inj_map_eq_map [OF tool_entry_inj])
qed

lemma convert_eq_iff:
  "(convert_to_istvon s1 p = convert_to_istvon s2 p)
     = (set_iter s1 (found_tools (lower p)) = set_iter s2 (found_tools (lower p)))"
proof -
  have "(convert_to_istvon s1 p = convert_to_istvon s2 p)
          = (extract_tools s1 (lower p) = extract_tools s2 (lower p))"
    by (simp add: convert_to_istvon_def Let_def)
  then show ?thesis
    by (simp only: extract_tools_eq_iff)
qed

lemma set_iter_short: "length xs \<le> 1 \<Longrightarrow> set_iter s xs = xs"
proof (cases xs)
  case Nil
  then show ?thesis by (simp add: set_iter_def)
next
  case (Cons x ys)
  assume "length xs \<le> 1"
  with Cons have "ys = []" by simp
  with Cons show ?thesis by (simp add: set_iter_def)
qed

text \<open>
  Claim C4, as amended. For every prompt, two runs of the mapper under any two set
  iteration orders give records with the same keys and the same value under every key
  but \<^verbatim>\<open>tools\<close>, and tools lists with the same entries, each as often in the one as in
  the other. The two records are identical exactly when the two runs iterate the set of
  matched categories in the same order; they do so, whatever the two orders, when at most
  one category is matched.
\<close>

theorem mapper_deterministic_up_to_tool_order:
  "map fst (convert_to_istvon s1 p) = map fst (convert_to_istvon s2 p)
   \<and> (k \<noteq> ''tools'' \<longrightarrow>
        dict_get (convert_to_istvon s1 p) k = dict_get (convert_to_istvon s2 p) k)
   \<and> mset (mapper_tools s1 p) = mset (mapper_tools s2 p)
   \<and> (convert_to_istvon s1 p = convert_to_istvon s2 p)
       = (set_iter s1 (found_tools (lower p)) = set_iter s2 (found_tools (lower p)))
   \<and> (length (found_tools (lower p)) \<le> 1 \<longrightarrow>
        convert_to_istvon s1 p = convert_to_istvon s2 p)"
proof -
  have a: "map fst (convert_to_istvon s1 p) = map fst (convert_to_istvon s2 p)"
    by (simp add: convert_to_istvon_def Let_def)
  have b: "k \<noteq> ''tools'' \<longrightarrow>
        dict_get (convert_to_istvon s1 p) k = dict_get (convert_to_istvon s2 p) k"
    by (simp add: convert_to_istvon_def Let_def dict_get_def)
  have c: "mset (mapper_tools s1 p) = mset (mapper_tools s2 p)"
    by (simp add: mapper_tools_eq extract_tools_mset)
  have d: "(convert_to_istvon s1 p = convert_to_istvon s2 p)
       = (set_iter s1 (found_tools (lower p)) = set_iter s2 (found_tools (lower p)))"
    by (rule convert_eq_iff)
  have e: "length (found_tools (lower p)) \<le> 1 \<longrightarrow>
        convert_to_istvon s1 p = convert_to_istvon s2 p"
  proof
    assume "length (found_tools (lower p)) \<le> 1"
    then have "set_iter s1 (found_tools (lower p)) = set_iter s2 (found_tools (lower p))"
      by (simp add: set_iter_short)
    then show "convert_to_istvon s1 p = convert_to_istvon s2 p"
      by (simp only: convert_eq_iff)
  qed
  show ?thesis
    by (intro conjI) (fact a b c d e)+
qed

lemma summarize_found: "found_tools (lower ''Summarize this'') = [''summarization'']"
  by code_simp

text \<open>
  The theorem on a prompt with two matched categories, under two orders that give every
  string different slots and iterate the two categories alike, against their order of
  insertion; and on a prompt with one matched category, under two orders that differ.
\<close>

theorem mapper_deterministic_up_to_tool_order_witness:
  "convert_to_istvon seed_b ''Analyze and summarize this data''
     = convert_to_istvon seed_c ''Analyze and summarize this data''
   \<and> tool_names (mapper_tools seed_b ''Analyze and summarize this data'')
     = [''summarization'', ''data_analysis'']
   \<and> found_tools (lower ''Analyze and summarize this data'')
     = [''data_analysis'', ''summarization'']
   \<and> seed_b ''summarization'' \<noteq> seed_c ''summarization''
   \<and> seed_b ''data_analysis'' \<noteq> seed_c ''data_analysis''
   \<and> dict_get (convert_to_istvon seed_a ''Analyze and summarize this data'') ''outcome''
     = dict_get (convert_to_istvon seed_b ''Analyze and summarize this data'') ''outcome''
   \<and> convert_to_istvon seed_a ''Summarize this'' = convert_to_istvon seed_b ''Summarize this''"
proof -
  have same: "set_iter seed_b (found_tools (lower ''Analyze and summarize this data''))
      = set_iter seed_c (found_tools (lower ''Analyze and summarize this data''))"
    by (simp add: analyze_found set_iter_def seed_b_def seed_c_def)
  have two: "convert_to_istvon seed_b ''Analyze and summarize this data''
     = convert_to_istvon seed_c ''Analyze and summarize this data''"
    using mapper_deterministic_up_to_tool_order
      [of seed_b "''Analyze and summarize this data''" seed_c "''outcome''"] same
    by simp
  have names: "tool_names (mapper_tools seed_b ''Analyze and summarize this data'')
     = [''summarization'', ''data_analysis'']"
    by (simp add: mapper_tool_names analyze_found set_iter_def seed_b_def)
  have slots: "seed_b ''summarization'' \<noteq> seed_c ''summarization''"
    "seed_b ''data_analysis'' \<noteq> seed_c ''data_analysis''"
    by (simp_all add: seed_b_def seed_c_def)
  have key: "''outcome'' \<noteq> ''tools''"
    by simp
  have other: "dict_get (convert_to_istvon seed_a ''Analyze and summarize this data'') ''outcome''
     = dict_get (convert_to_istvon seed_b ''Analyze and summarize this data'') ''outcome''"
    using mapper_deterministic_up_to_tool_order
      [of seed_a "''Analyze and summarize this data''" seed_b "''outcome''"] key
    by simp
  have "length (found_tools (lower ''Summarize this'')) \<le> 1"
    by (simp add: summarize_found)
  then have one: "convert_to_istvon seed_a ''Summarize this''
      = convert_to_istvon seed_b ''Summarize this''"
    using mapper_deterministic_up_to_tool_order
      [of seed_a "''Summarize this''" seed_b "''outcome''"]
    by simp
  show ?thesis
    by (intro conjI) (fact two names analyze_found slots other one)+
qed

text \<open>
  Two runs under different iteration orders need not give identical structures: on
  \<^verbatim>\<open>Analyze and summarize this data\<close> the two tools lists come in opposite orders.
\<close>

theorem mapper_tool_order_counterexample:
  "convert_to_istvon seed_a ''Analyze and summarize this data''
     \<noteq> convert_to_istvon seed_b ''Analyze and summarize this data''"
proof -
  have "extract_tools seed_a (lower ''Analyze and summarize this data'')
          = [JObj [(''name'', JStr ''data_analysis'')], JObj [(''name'', JStr ''summarization'')]]"
    by (simp add: extract_tools_def analyze_found set_iter_def seed_a_def)
  moreover have "extract_tools seed_b (lower ''Analyze and summarize this data'')
          = [JObj [(''name'', JStr ''summarization'')], JObj [(''name'', JStr ''data_analysis'')]]"
    by (simp add: extract_tools_def analyze_found set_iter_def seed_b_def)
  ultimately show ?thesis
    by (simp add: convert_to_istvon_def Let_def)
qed

section \<open>Properties of the validator\<close>

subsection \<open>Partial validation\<close>




lemma new_builder_snapshot:
  "snapshot (objects new_builder) (istvon new_builder) = create_minimal_istvon []"
  by (simp add: new_builder_def snapshot_def create_minimal_istvon_def new_list_def
      new_dict_def empty_store_def Let_def)










lemma validate_fields_filter:
  "validate_fields validate props (filter (\<lambda>item. dict_has props (fst item)) items) errors
     = validate_fields validate props items errors"
proof (induction items arbitrary: errors)
  case Nil
  then show ?case by simp
next
  case (Cons item items)
  obtain field v where item: "item = (field, v)" by (cases item)
  show ?case
  proof (cases "dict_get props field")
    case None
    then have "\<not> dict_has props field"
      by (simp add: dict_get_def dict_has_def map_of_eq_None_iff)
    then show ?thesis
      using None Cons.IH by (simp add: item)
  next
    case (Some field_schema)
    then have "dict_has props field"
      by (auto simp: dict_get_def dict_has_def dest: map_of_SomeD intro: rev_image_eqI)
    then show ?thesis
      using Some Cons.IH by (cases "validate v field_schema") (simp_all add: item)
  qed
qed

lemma all_valid_no_errors:
  assumes "list_all (field_valid validate schema) r"
  shows "validate_fields validate (schema_props schema) r errors = Inr errors"
  using assms
proof (induction r arbitrary: errors)
  case Nil
  then show ?case by simp
next
  case (Cons item items)
  obtain field v where item: "item = (field, v)" by (cases item)
  from Cons.prems have rest: "list_all (field_valid validate schema) items"
    and here: "field_valid validate schema (field, v)"
    by (simp_all add: item)
  have ih: "validate_fields validate (schema_props schema) items errors = Inr errors"
    by (rule Cons.IH [OF rest])
  from here show ?case
    by (simp add: item ih field_valid_def split: option.splits)
qed

text \<open>
  Claim C10. With \<open>required_only\<close> false, a record all of whose known keys validate
  against their fragments yields \<open>(True, [])\<close>, whatever other keys it holds; and the
  result on any record is the result on the record with its unknown keys removed, so
  that an unknown key never contributes an error.
\<close>

theorem validate_partial_skips_unknown_keys:
  "(list_all (field_valid validate schema) r \<longrightarrow>
      validate_partial validate schema r False = Inr (True, []))
   \<and> validate_partial validate schema r False
       = validate_partial validate schema
           (filter (\<lambda>item. dict_has (schema_props schema) (fst item)) r) False"
proof -
  have a: "list_all (field_valid validate schema) r \<longrightarrow>
      validate_partial validate schema r False = Inr (True, [])"
    using all_valid_no_errors [of validate schema r "[]"]
    by (simp add: validate_partial_def)
  have b: "validate_partial validate schema r False
       = validate_partial validate schema
           (filter (\<lambda>item. dict_has (schema_props schema) (fst item)) r) False"
    by (simp add: validate_partial_def validate_fields_filter)
  show ?thesis
    by (intro conjI) (fact a b)+
qed

lemma with_unknown_keys_valid:
  "list_all (field_valid jsonschema_validate (istvon_schema named_values)) with_unknown_keys"
  by code_simp

text \<open>The theorem on the minimal record extended by two unknown keys.\<close>

theorem validate_partial_skips_unknown_keys_witness:
  "validate_partial jsonschema_validate (istvon_schema named_values) with_unknown_keys False
     = Inr (True, [])"
  using validate_partial_skips_unknown_keys
    [of jsonschema_validate "istvon_schema named_values" with_unknown_keys]
    with_unknown_keys_valid
  by simp

subsection \<open>Suggestions\<close>

lemma suggest_instructions_short:
  assumes "dict_get r ''instructions'' = Some (JStr s)" "s \<noteq> []" "length (py_split s) < 5"
  shows "\<exists>advs. suggest_instructions r [] = Inr [(''instructions'', advs)]
           \<and> ''Consider making instructions more detailed'' \<in> set advs"
  using assms by (simp add: suggest_instructions_def Let_def)

lemma suggest_instructions_falsy:
  "\<not> truthy (instructions_value r) \<Longrightarrow> suggest_instructions r [] = Inr []"
  by (simp add: suggest_instructions_def instructions_value_def Let_def)

lemma suggest_source_data_keeps:
  "map_of (suggest_source_data r ((''instructions'', advs) # rest)) ''instructions'' = Some advs"
  by (simp add: suggest_source_data_def Let_def)

lemma suggest_source_data_none:
  "map_of (suggest_source_data r []) ''instructions'' = None"
  by (simp add: suggest_source_data_def Let_def)

lemma suggest_variables_container:
  assumes "is_container (variables_value r)"
  shows "\<exists>extra. suggest_variables r sugg = Inr (sugg @ extra)
           \<and> map_of extra ''instructions'' = None"
proof -
  from assms obtain b1 b2
    where "py_contains (variables_value r) ''topic'' = Inr b1"
      and "py_contains (variables_value r) ''target_audience'' = Inr b2"
    by (cases "variables_value r") simp_all
  then show ?thesis
    by (simp add: suggest_variables_def variables_value_def Let_def)
qed

lemma suggest_variables_raises:
  assumes "\<not> is_container (variables_value r)"
  shows "suggest_variables r sugg = Inl TypeError"
proof -
  from assms have "py_contains (variables_value r) ''topic'' = Inl TypeError"
    by (cases "variables_value r") simp_all
  then show ?thesis
    by (simp add: suggest_variables_def variables_value_def Let_def)
qed

lemma short_instructions_returns:
  assumes "dict_get r ''instructions'' = Some (JStr s)" "s \<noteq> []" "length (py_split s) < 5"
    and "is_container (variables_value r)"
  shows "\<exists>sugg. fst (get_validation_suggestions r) = Inr sugg
           \<and> ''Consider making instructions more detailed''
               \<in> set (advisories (Inr sugg) ''instructions'')"
proof -
  from suggest_instructions_short [OF assms(1-3)]
  obtain advs where i: "suggest_instructions r [] = Inr [(''instructions'', advs)]"
    and m: "''Consider making instructions more detailed'' \<in> set advs"
    by blast
  obtain mid where mid: "suggest_source_data r [(''instructions'', advs)] = mid" by simp
  have look: "map_of mid ''instructions'' = Some advs"
    using suggest_source_data_keeps [of r advs "[]"] mid by simp
  from suggest_variables_container [OF assms(4), of mid]
  obtain extra where v: "suggest_variables r mid = Inr (mid @ extra)"
    by blast
  have "fst (get_validation_suggestions r) = Inr (mid @ extra)"
    by (simp add: get_validation_suggestions_def i mid v)
  moreover have "map_of (mid @ extra) ''instructions'' = Some advs"
    using look by (simp add: map_add_def)
  ultimately show ?thesis
    using m by (simp add: advisories_def)
qed

lemma short_instructions_raises:
  assumes "dict_get r ''instructions'' = Some (JStr s)" "s \<noteq> []" "length (py_split s) < 5"
    and "\<not> is_container (variables_value r)"
  shows "fst (get_validation_suggestions r) = Inl TypeError"
proof -
  from suggest_instructions_short [OF assms(1-3)]
  obtain advs where i: "suggest_instructions r [] = Inr [(''instructions'', advs)]"
    by blast
  show ?thesis
    by (simp add: get_validation_suggestions_def i suggest_variables_raises [OF assms(4)])
qed

lemma falsy_instructions_no_advisory:
  assumes "\<not> truthy (instructions_value r)"
  shows "advisories (fst (get_validation_suggestions r)) ''instructions'' = []"
proof (cases "is_container (variables_value r)")
  case True
  obtain mid where mid: "suggest_source_data r [] = mid" by simp
  have look: "map_of mid ''instructions'' = None"
    using suggest_source_data_none [of r] mid by simp
  from suggest_variables_container [OF True, of mid]
  obtain extra where v: "suggest_variables r mid = Inr (mid @ extra)"
    and e: "map_of extra ''instructions'' = None"
    by blast
  have "fst (get_validation_suggestions r) = Inr (mid @ extra)"
    by (simp add: get_validation_suggestions_def suggest_instructions_falsy [OF assms] mid v)
  moreover have "map_of (mid @ extra) ''instructions'' = None"
    using look e by (simp add: map_add_def)
  ultimately show ?thesis
    by (simp add: advisories_def map_add_def)
next
  case False
  have "fst (get_validation_suggestions r) = Inl TypeError"
    by (simp add: get_validation_suggestions_def suggest_instructions_falsy [OF assms]
        suggest_variables_raises [OF False])
  then show ?thesis
    by (simp add: advisories_def)
qed

lemma falsy_instructions_returns:
  assumes "\<not> truthy (instructions_value r)" "is_container (variables_value r)"
  shows "\<exists>sugg. fst (get_validation_suggestions r) = Inr sugg"
proof -
  from suggest_variables_container [OF assms(2), of "suggest_source_data r []"]
  obtain extra
    where "suggest_variables r (suggest_source_data r []) = Inr (suggest_source_data r [] @ extra)"
    by blast
  then show ?thesis
    by (simp add: get_validation_suggestions_def suggest_instructions_falsy [OF assms(1)])
qed

lemma verdict_is_the_library's:
  "fst (validate_istvon validate schema r) = (validate (JObj r) (JObj schema) = Valid)"
  by (cases "validate (JObj r) (JObj schema)") (simp_all add: validate_istvon_def)

text \<open>
  Claim C9, as amended. Take a record whose \<^verbatim>\<open>instructions\<close> value is a non-empty string
  of fewer than five words. When its \<^verbatim>\<open>variables\<close> value is absent or a dict, list or
  string, \<^verbatim>\<open>get_validation_suggestions\<close> returns suggestions that hold the add-detail
  advisory under \<^verbatim>\<open>instructions\<close>; otherwise it raises \<^verbatim>\<open>TypeError\<close> and returns nothing.
  A record whose \<^verbatim>\<open>instructions\<close> value is absent, empty or otherwise falsy gets no
  advisory under \<^verbatim>\<open>instructions\<close>, and the call returns under the same condition on
  \<^verbatim>\<open>variables\<close>. For every record, the call leaves the record as it was, so the verdict of
  \<^verbatim>\<open>validate_istvon\<close> on it is the same after the call as before; and that verdict is
  true exactly when the library accepts the record against the schema, whatever the
  suggestions are.
\<close>

theorem short_instructions_advisory:
  "(dict_get r ''instructions'' = Some (JStr s) \<and> s \<noteq> [] \<and> length (py_split s) < 5
      \<and> is_container (variables_value r)
    \<longrightarrow> (\<exists>sugg. fst (get_validation_suggestions r) = Inr sugg
           \<and> ''Consider making instructions more detailed''
               \<in> set (advisories (Inr sugg) ''instructions'')))
   \<and> (dict_get r ''instructions'' = Some (JStr s) \<and> s \<noteq> [] \<and> length (py_split s) < 5
      \<and> \<not> is_container (variables_value r)
    \<longrightarrow> fst (get_validation_suggestions r) = Inl TypeError)
   \<and> (\<not> truthy (instructions_value r)
    \<longrightarrow> advisories (fst (get_validation_suggestions r)) ''instructions'' = []
        \<and> (is_container (variables_value r)
             \<longrightarrow> (\<exists>sugg. fst (get_validation_suggestions r) = Inr sugg)))
   \<and> snd (get_validation_suggestions r) = r
   \<and> validate_istvon validate schema (snd (get_validation_suggestions r))
       = validate_istvon validate schema r
   \<and> fst (validate_istvon validate schema r) = (validate (JObj r) (JObj schema) = Valid)"
proof -
  have a: "dict_get r ''instructions'' = Some (JStr s) \<and> s \<noteq> [] \<and> length (py_split s) < 5
      \<and> is_container (variables_value r)
    \<longrightarrow> (\<exists>sugg. fst (get_validation_suggestions r) = Inr sugg
           \<and> ''Consider making instructions more detailed''
               \<in> set (advisories (Inr sugg) ''instructions''))"
    using short_instructions_returns [of r s] by blast
  have b: "dict_get r ''instructions'' = Some (JStr s) \<and> s \<noteq> [] \<and> length (py_split s) < 5
      \<and> \<not> is_container (variables_value r)
    \<longrightarrow> fst (get_validation_suggestions r) = Inl TypeError"
    using short_instructions_raises [of r s] by blast
  have c: "\<not> truthy (instructions_value r)
    \<longrightarrow> advisories (fst (get_validation_suggestions r)) ''instructions'' = []
        \<and> (is_container (variables_value r)
             \<longrightarrow> (\<exists>sugg. fst (get_validation_suggestions r) = Inr sugg))"
    using falsy_instructions_no_advisory [of r] falsy_instructions_returns [of r] by blast
  have d: "snd (get_validation_suggestions r) = r"
    by (simp add: get_validation_suggestions_def)
  have e: "validate_istvon validate schema (snd (get_validation_suggestions r))
       = validate_istvon validate schema r"
    by (simp add: d)
  have f: "fst (validate_istvon validate schema r) = (validate (JObj r) (JObj schema) = Valid)"
    by (rule verdict_is_the_library's)
  show ?thesis
    by (intro conjI) (fact a b c d e f)+
qed

lemma write_poem_words: "length (py_split ''Write a poem'') < 5"
  by code_simp

lemma complete_xml_suggestions: "fst (get_validation_suggestions complete_xml) = Inr []"
  by code_simp

lemma complete_xml_invalid:
  "fst (validate_istvon jsonschema_validate (istvon_schema named_values) complete_xml) = False"
  by code_simp

lemma poem_valid:
  "fst (validate_istvon jsonschema_validate (istvon_schema named_values)
          (create_minimal_istvon ''Write a poem'')) = True"
  by code_simp

text \<open>
  The theorem on the minimal record with a three-word instruction, which draws the
  advisory and validates; on the same instruction with a number for \<^verbatim>\<open>variables\<close>; on the
  minimal record with empty instructions; on a record without the \<^verbatim>\<open>instructions\<close> key;
  and on a record that draws no suggestion and does not validate.
\<close>

theorem short_instructions_advisory_witness:
  "''Consider making instructions more detailed''
     \<in> set (advisories (fst (get_validation_suggestions (create_minimal_istvon ''Write a poem'')))
              ''instructions'')
   \<and> jsonschema_validate (JObj (create_minimal_istvon ''Write a poem''))
        (JObj (istvon_schema named_values)) = Valid
   \<and> fst (get_validation_suggestions number_variables) = Inl TypeError
   \<and> advisories (fst (get_validation_suggestions (create_minimal_istvon []))) ''instructions''
       = []
   \<and> advisories (fst (get_validation_suggestions [(''variables'', JObj [])])) ''instructions''
       = []
   \<and> fst (get_validation_suggestions complete_xml) = Inr []
   \<and> jsonschema_validate (JObj complete_xml) (JObj (istvon_schema named_values)) \<noteq> Valid"
proof -
  have i: "dict_get (create_minimal_istvon ''Write a poem'') ''instructions''
             = Some (JStr ''Write a poem'')"
    by (simp add: create_minimal_istvon_def dict_get_def)
  have v: "is_container (variables_value (create_minimal_istvon ''Write a poem''))"
    by (simp add: create_minimal_istvon_def dict_get_def variables_value_def)
  have n: "''Write a poem'' \<noteq> []" by simp
  have one: "''Consider making instructions more detailed''
     \<in> set (advisories (fst (get_validation_suggestions (create_minimal_istvon ''Write a poem'')))
              ''instructions'')"
    using short_instructions_advisory
      [of "create_minimal_istvon ''Write a poem''" "''Write a poem''"
          jsonschema_validate "istvon_schema named_values"]
      i v n write_poem_words
    by auto
  have two: "jsonschema_validate (JObj (create_minimal_istvon ''Write a poem''))
        (JObj (istvon_schema named_values)) = Valid"
    using short_instructions_advisory
      [of "create_minimal_istvon ''Write a poem''" "''Write a poem''"
          jsonschema_validate "istvon_schema named_values"]
      poem_valid
    by simp
  have ni: "dict_get number_variables ''instructions'' = Some (JStr ''Write a poem'')"
    by (simp add: number_variables_def dict_get_def)
  have nv: "\<not> is_container (variables_value number_variables)"
    by (simp add: number_variables_def dict_get_def variables_value_def)
  have three: "fst (get_validation_suggestions number_variables) = Inl TypeError"
    using short_instructions_advisory
      [of number_variables "''Write a poem''" jsonschema_validate "istvon_schema named_values"]
      ni nv n write_poem_words
    by simp
  have "\<not> truthy (instructions_value (create_minimal_istvon []))"
    by (simp add: instructions_value_def create_minimal_istvon_def dict_get_def)
  then have four: "advisories (fst (get_validation_suggestions (create_minimal_istvon [])))
                     ''instructions'' = []"
    using short_instructions_advisory
      [of "create_minimal_istvon []" "[]" jsonschema_validate "istvon_schema named_values"]
    by simp
  have "\<not> truthy (instructions_value [(''variables'', JObj [])])"
    by (simp add: instructions_value_def dict_get_def)
  then have five: "advisories (fst (get_validation_suggestions [(''variables'', JObj [])]))
                     ''instructions'' = []"
    using short_instructions_advisory
      [of "[(''variables'', JObj [])]" "[]" jsonschema_validate "istvon_schema named_values"]
    by simp
  have six: "jsonschema_validate (JObj complete_xml) (JObj (istvon_schema named_values)) \<noteq> Valid"
    using short_instructions_advisory
      [of complete_xml "[]" jsonschema_validate "istvon_schema named_values"]
      complete_xml_invalid
    by simp
  show ?thesis
    by (intro conjI) (fact one two three four five complete_xml_suggestions six)+
qed

lemma empty_instructions_suggestions:
  "fst (get_validation_suggestions (create_minimal_istvon [])) =
     Inr [(''variables'', [''Adding a topic would improve clarity'',
                           ''Specifying target audience helps tailor content''])]"
  by (simp add: get_validation_suggestions_def suggest_instructions_def suggest_source_data_def
      suggest_variables_def create_minimal_istvon_def dict_get_def dict_has_def Let_def)

lemma number_variables_raises:
  "fst (get_validation_suggestions number_variables) = Inl TypeError"
  by code_simp

text \<open>
  The empty string has fewer than five words, yet the record of a new builder, whose
  instructions are empty, gets no advisory under \<^verbatim>\<open>instructions\<close>: the source guards the
  whole check by \<^verbatim>\<open>if instructions:\<close>. And a record with a three-word instruction whose
  \<^verbatim>\<open>variables\<close> entry is a number gets no suggestions at all: the call raises.
\<close>

theorem empty_instructions_counterexample:
  "length (py_split []) < 5
   \<and> ''Consider making instructions more detailed''
       \<notin> set (advisories (fst (get_validation_suggestions (create_minimal_istvon [])))
                ''instructions'')
   \<and> length (py_split ''Write a poem'') < 5
   \<and> ''Consider making instructions more detailed''
       \<notin> set (advisories (fst (get_validation_suggestions number_variables)) ''instructions'')"
proof -
  have a: "length (py_split []) < 5"
    by (simp add: py_split_def)
  have b: "''Consider making instructions more detailed''
       \<notin> set (advisories (fst (get_validation_suggestions (create_minimal_istvon [])))
                ''instructions'')"
    by (simp add: empty_instructions_suggestions advisories_def)
  have c: "''Consider making instructions more detailed''
       \<notin> set (advisories (fst (get_validation_suggestions number_variables)) ''instructions'')"
    by (simp add: number_variables_raises advisories_def)
  show ?thesis
    by (intro conjI) (fact a b write_poem_words c)+
qed

section \<open>Properties of the builder\<close>

lemma validate_istvon_invalid_message:
  "\<not> fst (validate_istvon validate schema r) \<Longrightarrow>
   \<exists>msg. snd (validate_istvon validate schema r) = Some msg"
  by (cases "validate (JObj r) (JObj schema)") (simp_all add: validate_istvon_def)

text \<open>
  Claim C6. \<^verbatim>\<open>build\<close> leaves the builder as it was, whether it raises or returns. It
  raises exactly when the record in progress fails \<^verbatim>\<open>validate_istvon\<close>; the error is then
  a \<^verbatim>\<open>ValueError\<close> carrying the validator's message, and otherwise the copy is returned.
\<close>

theorem build_raises_iff_invalid:
  "snd (build validate schema b) = b
   \<and> ((\<exists>e. fst (build validate schema b) = Inl e)
        = (\<not> fst (validate_istvon validate schema (snapshot (objects b) (istvon b)))))
   \<and> (fst (validate_istvon validate schema (snapshot (objects b) (istvon b)))
        \<longrightarrow> fst (build validate schema b) = Inr (istvon b))
   \<and> (\<not> fst (validate_istvon validate schema (snapshot (objects b) (istvon b)))
        \<longrightarrow> (\<exists>msg. snd (validate_istvon validate schema (snapshot (objects b) (istvon b)))
                      = Some msg
                  \<and> fst (build validate schema b)
                      = Inl (ValueError (''Invalid ISTVON structure: '' @ msg))))"
proof -
  obtain ok err where v: "validate_istvon validate schema (snapshot (objects b) (istvon b)) = (ok, err)"
    by (cases "validate_istvon validate schema (snapshot (objects b) (istvon b))")
  have a: "snd (build validate schema b) = b"
    by (simp add: build_def v)
  have b: "(\<exists>e. fst (build validate schema b) = Inl e)
        = (\<not> fst (validate_istvon validate schema (snapshot (objects b) (istvon b))))"
    by (simp add: build_def v)
  have c: "fst (validate_istvon validate schema (snapshot (objects b) (istvon b)))
        \<longrightarrow> fst (build validate schema b) = Inr (istvon b)"
    by (simp add: build_def v)
  have d: "\<not> fst (validate_istvon validate schema (snapshot (objects b) (istvon b)))
        \<longrightarrow> (\<exists>msg. snd (validate_istvon validate schema (snapshot (objects b) (istvon b)))
                      = Some msg
                  \<and> fst (build validate schema b)
                      = Inl (ValueError (''Invalid ISTVON structure: '' @ msg)))"
  proof
    assume n: "\<not> fst (validate_istvon validate schema (snapshot (objects b) (istvon b)))"
    from validate_istvon_invalid_message [OF n] obtain msg where "err = Some msg"
      by (auto simp: v)
    with n show "\<exists>msg. snd (validate_istvon validate schema (snapshot (objects b) (istvon b)))
                      = Some msg
                  \<and> fst (build validate schema b)
                      = Inl (ValueError (''Invalid ISTVON structure: '' @ msg))"
      by (simp add: build_def v)
  qed
  show ?thesis
    by (intro conjI) (fact a b c d)+
qed

lemma new_builder_valid:
  "validate_istvon jsonschema_validate (istvon_schema named_values)
     (snapshot (objects new_builder) (istvon new_builder)) = (True, None)"
  by code_simp

lemma xml_builder_invalid:
  "validate_istvon jsonschema_validate (istvon_schema named_values)
     (snapshot (objects xml_builder) (istvon xml_builder))
   = (False, Some ''Validation error at outcome.format: enum'')"
  by code_simp

text \<open>
  The theorem on a new builder, whose record is valid, and on a builder with an outcome
  format outside the declared values.
\<close>

theorem build_raises_iff_invalid_witness:
  "fst (build jsonschema_validate (istvon_schema named_values) new_builder)
     = Inr (istvon new_builder)
   \<and> fst (build jsonschema_validate (istvon_schema named_values) xml_builder)
     = Inl (ValueError ''Invalid ISTVON structure: Validation error at outcome.format: enum'')
   \<and> snd (build jsonschema_validate (istvon_schema named_values) xml_builder) = xml_builder"
  using build_raises_iff_invalid [of jsonschema_validate "istvon_schema named_values" new_builder]
    build_raises_iff_invalid [of jsonschema_validate "istvon_schema named_values" xml_builder]
  by (simp add: new_builder_valid xml_builder_invalid)

lemma add_source_data_new_builder:
  "lists (objects (add_source_data t s d r new_builder))
     (source_data_ref (istvon (add_source_data t s d r new_builder)))
   = [source_descriptor t s d r]"
  by (simp add: add_source_data_def new_builder_def new_list_def new_dict_def empty_store_def
      list_append_def source_descriptor_def dict_get_def Let_def)

lemma add_source_data_old_list:
  "lists (objects (add_source_data t s d r new_builder)) (source_data_ref (istvon new_builder))
   = [[(''type'', JStr ''none''), (''source'', JStr ''general_knowledge'')]]"
  by (simp add: add_source_data_def new_builder_def new_list_def new_dict_def empty_store_def
      list_append_def dict_get_def Let_def)

text \<open>
  Claim C8. After one \<^verbatim>\<open>add_source_data\<close> on a new builder, the record's \<^verbatim>\<open>source_data\<close> is
  the one-element list of the new descriptor; the descriptor has a \<^verbatim>\<open>description\<close> key
  exactly when the argument is not empty; and the list that held the placeholder still
  holds it alone: it was replaced, not appended to.
\<close>

theorem fresh_builder_add_source_data:
  "dict_get (snapshot (objects (add_source_data t s d r new_builder))
                      (istvon (add_source_data t s d r new_builder))) ''source_data''
     = Some (JArr [JObj (source_descriptor t s d r)])
   \<and> dict_has (source_descriptor t s d r) ''description'' = (d \<noteq> [])
   \<and> lists (objects (add_source_data t s d r new_builder)) (source_data_ref (istvon new_builder))
     = [[(''type'', JStr ''none''), (''source'', JStr ''general_knowledge'')]]"
proof -
  have a: "dict_get (snapshot (objects (add_source_data t s d r new_builder))
                      (istvon (add_source_data t s d r new_builder))) ''source_data''
     = Some (JArr [JObj (source_descriptor t s d r)])"
    by (simp add: snapshot_def dict_get_def add_source_data_new_builder)
  have b: "dict_has (source_descriptor t s d r) ''description'' = (d \<noteq> [])"
    by (simp add: source_descriptor_def dict_has_def)
  show ?thesis
    by (intro conjI) (fact a b add_source_data_old_list)+
qed

text \<open>The theorem with an empty and with a non-empty description.\<close>

theorem fresh_builder_add_source_data_witness:
  "dict_get (snapshot (objects (add_source_data ''file'' ''report.csv'' [] True new_builder))
                      (istvon (add_source_data ''file'' ''report.csv'' [] True new_builder)))
            ''source_data''
     = Some (JArr [JObj [(''type'', JStr ''file''), (''source'', JStr ''report.csv''),
                         (''required'', JBool True)]])
   \<and> dict_get (snapshot (objects (add_source_data ''none'' ''notes'' ''My notes'' False new_builder))
                      (istvon (add_source_data ''none'' ''notes'' ''My notes'' False new_builder)))
            ''source_data''
     = Some (JArr [JObj [(''type'', JStr ''none''), (''source'', JStr ''notes''),
                         (''required'', JBool False), (''description'', JStr ''My notes'')]])"
  using fresh_builder_add_source_data [of "''file''" "''report.csv''" "[]" True]
    fresh_builder_add_source_data [of "''none''" "''notes''" "''My notes''" False]
  by (simp add: source_descriptor_def)

lemma build_success:
  "fst (build validate schema b) = Inr r \<Longrightarrow> r = istvon b \<and> snd (build validate schema b) = b"
  by (auto simp: build_def split: prod.splits if_splits)

text \<open>
  Claim C3 does not hold of the code. Whenever \<^verbatim>\<open>build\<close> succeeds, a following \<^verbatim>\<open>add_tool\<close>
  changes the record that \<^verbatim>\<open>build\<close> returned: its tools list is the list object of the
  builder, and is one entry longer after the call.
\<close>

theorem build_copy_shares_tools:
  "fst (build validate schema b) = Inr r \<Longrightarrow>
   b' = add_tool name version parameters (snd (build validate schema b)) \<Longrightarrow>
   snapshot (objects b') r \<noteq> snapshot (objects b) r
   \<and> length (lists (objects b') (tools_ref r)) = Suc (length (lists (objects b) (tools_ref r)))"
proof -
  assume ok: "fst (build validate schema b) = Inr r"
    and b': "b' = add_tool name version parameters (snd (build validate schema b))"
  from build_success [OF ok] have r: "r = istvon b" and same: "snd (build validate schema b) = b"
    by simp_all
  have len: "length (lists (objects b') (tools_ref r)) = Suc (length (lists (objects b) (tools_ref r)))"
    by (simp add: b' same r add_tool_def list_append_def Let_def)
  then have "map JObj (lists (objects b') (tools_ref r)) \<noteq> map JObj (lists (objects b) (tools_ref r))"
    by (metis length_map n_not_Suc_n)
  then have "snapshot (objects b') r \<noteq> snapshot (objects b) r"
    by (simp add: snapshot_def)
  with len show ?thesis by simp
qed

lemma build_new_builder:
  "build jsonschema_validate (istvon_schema named_values) new_builder
     = (Inr (istvon new_builder), new_builder)"
  by (simp add: build_def new_builder_valid)

lemma after_add_tool_eq: "after_add_tool = add_tool ''web_search'' None None new_builder"
  by (simp add: after_add_tool_def build_new_builder)

text \<open>
  On a new builder: the record returned by \<^verbatim>\<open>build\<close> has one tool before
  \<^verbatim>\<open>add_tool("web_search")\<close> and two after it.
\<close>

theorem build_copy_shares_tools_witness:
  "tools_of (objects new_builder) (istvon new_builder)
     = Some (JArr [JObj [(''name'', JStr ''text_generation'')]])
   \<and> tools_of (objects after_add_tool) (istvon new_builder)
     = Some (JArr [JObj [(''name'', JStr ''text_generation'')],
                   JObj [(''name'', JStr ''web_search'')]])
   \<and> snapshot (objects after_add_tool) (istvon new_builder)
       \<noteq> snapshot (objects new_builder) (istvon new_builder)"
proof -
  have ok: "fst (build jsonschema_validate (istvon_schema named_values) new_builder)
              = Inr (istvon new_builder)"
    by (simp add: build_new_builder)
  have a: "tools_of (objects new_builder) (istvon new_builder)
     = Some (JArr [JObj [(''name'', JStr ''text_generation'')]])"
    by (simp add: tools_of_def new_builder_snapshot create_minimal_istvon_def dict_get_def)
  have b: "tools_of (objects after_add_tool) (istvon new_builder)
     = Some (JArr [JObj [(''name'', JStr ''text_generation'')],
                   JObj [(''name'', JStr ''web_search'')]])"
    by (simp add: tools_of_def after_add_tool_eq add_tool_def list_append_def
        snapshot_def dict_get_def new_builder_def new_list_def new_dict_def empty_store_def Let_def)
  have c: "snapshot (objects after_add_tool) (istvon new_builder)
       \<noteq> snapshot (objects new_builder) (istvon new_builder)"
    using build_copy_shares_tools [OF ok, of after_add_tool "''web_search''" None None]
    by (simp add: after_add_tool_def)
  show ?thesis
    by (intro conjI) (fact a b c)+
qed

section \<open>Round trip: the mapper's record validates\<close>

subsection \<open>Evaluating a schema\<close>

lemma check_obj:
  "check (JObj kws) inst =
     (case local_failure kws inst of
        Some e \<Rightarrow> Some e
      | None \<Rightarrow>
          (case check_props (sub_properties kws) inst of
             Some e \<Rightarrow> Some e
           | None \<Rightarrow>
               (case dict_get kws ''items'' of
                  None \<Rightarrow> None
                | Some sub \<Rightarrow>
                    (case inst of JArr xs \<Rightarrow> check_items sub xs 0 | _ \<Rightarrow> None))))"
  by simp

declare check.simps [simp del]

lemmas schema_eval =
  check_obj local_failure_def type_failure_def enum_failure_def required_failure_def
  sub_properties_def dict_get_def dict_has_def

lemma check_object:
  "local_failure kws inst = None \<Longrightarrow> check_props (sub_properties kws) inst = None \<Longrightarrow>
   dict_get kws ''items'' = None \<Longrightarrow> check (JObj kws) inst = None"
  by (simp add: check_obj)

lemma check_props_step:
  "(case dict_get d k of None \<Rightarrow> True | Some v \<Rightarrow> check sub v = None) \<Longrightarrow>
   check_props ((k, sub) # props) (JObj d) = check_props props (JObj d)"
  by (simp split: option.splits)

lemma check_props_present:
  "dict_get d k = Some v \<Longrightarrow> check sub v = None \<Longrightarrow>
   check_props ((k, sub) # props) (JObj d) = check_props props (JObj d)"
  by (simp add: check_props_step)

lemma check_string: "check string_schema (JStr s) = None"
  by (simp add: schema_eval string_schema_def)

lemma check_enum: "x \<in> set values \<Longrightarrow> check (enum_schema values) (JStr x) = None"
  by (simp add: schema_eval enum_schema_def)

lemma string_or_absent_check:
  assumes "string_or_absent (dict_get d k)"
  shows "case dict_get d k of None \<Rightarrow> True | Some v \<Rightarrow> check string_schema v = None"
proof (cases "dict_get d k")
  case None
  then show ?thesis by simp
next
  case (Some v)
  with assms obtain s where "v = JStr s"
    by (cases v) (simp_all add: string_or_absent_def)
  with Some show ?thesis
    by (simp add: check_string)
qed

subsection \<open>Source data and tools\<close>

lemma check_source_descriptor:
  "t \<in> set (type_values vs) \<Longrightarrow>
   check (source_descriptor_schema vs)
         (JObj [(''type'', JStr t), (''source'', JStr s), (''description'', JStr d)]) = None"
  by (simp add: source_descriptor_schema_def schema_eval check_string check_enum)

lemma extract_source_data_shape:
  "\<exists>t s d. extract_source_data q =
              [JObj [(''type'', JStr t), (''source'', JStr s), (''description'', JStr d)]]
      \<and> t \<in> set (type_values named_values)"
  by (simp add: extract_source_data_def named_values_def)

lemma check_source_data:
  assumes "declares_named_values vs"
  shows "check (source_data_schema vs) (JArr (extract_source_data q)) = None"
proof -
  from extract_source_data_shape [of q] obtain t s d
    where sh: "extract_source_data q =
                 [JObj [(''type'', JStr t), (''source'', JStr s), (''description'', JStr d)]]"
      and t: "t \<in> set (type_values named_values)"
    by blast
  from assms t have "t \<in> set (type_values vs)"
    by (auto simp: declares_named_values_def)
  from check_source_descriptor [OF this, of s d] show ?thesis
    by (simp add: source_data_schema_def sh schema_eval)
qed

lemma check_tool_items:
  "check_items tool_descriptor_schema (map (\<lambda>tool. JObj [(''name'', JStr tool)]) xs) i = None"
  by (induction xs arbitrary: i) (simp_all add: tool_descriptor_schema_def schema_eval check_string)

lemma extract_tools_shape:
  "\<exists>xs. extract_tools slot q = map (\<lambda>tool. JObj [(''name'', JStr tool)]) xs"
proof (cases "set_iter slot (found_tools q) = []")
  case True
  then have "extract_tools slot q = map (\<lambda>tool. JObj [(''name'', JStr tool)]) [''text_generation'']"
    by (simp add: extract_tools_def)
  then show ?thesis by blast
next
  case False
  then have "extract_tools slot q
      = map (\<lambda>tool. JObj [(''name'', JStr tool)]) (set_iter slot (found_tools q))"
    by (simp add: extract_tools_def)
  then show ?thesis by blast
qed

lemma check_tools: "check tools_schema (JArr (extract_tools slot q)) = None"
proof -
  from extract_tools_shape [of slot q] obtain xs
    where "extract_tools slot q = map (\<lambda>tool. JObj [(''name'', JStr tool)]) xs"
    by blast
  then show ?thesis
    using check_tool_items [of xs 0]
    by (simp add: tools_schema_def schema_eval)
qed

subsection \<open>Outcome and notification\<close>

lemma extract_outcome_shape:
  "\<exists>f dl. extract_outcome q = [(''format'', JStr f), (''delivery'', JStr dl)]
      \<and> f \<in> set (format_values named_values) \<and> dl \<in> set (delivery_values named_values)"
proof (cases "find (\<lambda>(content_type, format_type). py_in content_type q) output_formats")
  case None
  then show ?thesis
    by (simp add: extract_outcome_def named_values_def Let_def)
next
  case (Some hit)
  obtain ct ft where hit: "hit = (ct, ft)" by (cases hit)
  from find_in_set [OF Some] have "ft \<in> snd ` set output_formats"
    by (force simp: hit)
  then have "ft \<in> set (format_values named_values)"
    by (auto simp: output_formats_def named_values_def)
  with Some show ?thesis
    by (simp add: extract_outcome_def hit named_values_def Let_def)
qed

lemma check_outcome:
  assumes "declares_named_values vs"
  shows "check (outcome_schema vs) (JObj (extract_outcome q)) = None"
proof -
  from extract_outcome_shape [of q] obtain f dl
    where sh: "extract_outcome q = [(''format'', JStr f), (''delivery'', JStr dl)]"
      and "f \<in> set (format_values named_values)" "dl \<in> set (delivery_values named_values)"
    by blast
  with assms have "f \<in> set (format_values vs)" "dl \<in> set (delivery_values vs)"
    by (auto simp: declares_named_values_def)
  then show ?thesis
    by (simp add: outcome_schema_def sh schema_eval check_enum)
qed

lemma extract_notification_shape:
  "\<exists>m t. extract_notification q = [(''method'', JStr m), (''trigger'', JStr t)]
      \<and> m \<in> set (method_values named_values) \<and> t \<in> set (trigger_values named_values)"
  by (simp add: extract_notification_def named_values_def Let_def)

lemma check_notification:
  assumes "declares_named_values vs"
  shows "check (notification_schema vs) (JObj (extract_notification q)) = None"
proof -
  from extract_notification_shape [of q] obtain m t
    where sh: "extract_notification q = [(''method'', JStr m), (''trigger'', JStr t)]"
      and "m \<in> set (method_values named_values)" "t \<in> set (trigger_values named_values)"
    by blast
  with assms have "m \<in> set (method_values vs)" "t \<in> set (trigger_values vs)"
    by (auto simp: declares_named_values_def)
  then show ?thesis
    by (simp add: notification_schema_def sh schema_eval check_enum)
qed

subsection \<open>Variables\<close>

lemma extract_topic_topic:
  "string_or_absent (dict_get d ''topic'') \<Longrightarrow>
   string_or_absent (dict_get (extract_topic p d) ''topic'')"
  by (simp add: extract_topic_def dict_get_dict_set string_or_absent_def Let_def
      split: option.splits)

lemma extract_length_length:
  "string_or_absent (dict_get d ''length'') \<Longrightarrow>
   string_or_absent (dict_get (extract_length p d) ''length'')"
  by (simp add: extract_length_def dict_get_dict_set string_or_absent_def
      split: option.splits prod.splits)

lemma extract_audience_audience:
  "string_or_absent (dict_get d ''target_audience'') \<Longrightarrow>
   string_or_absent (dict_get (extract_audience p d) ''target_audience'')"
  by (simp add: extract_audience_def dict_get_dict_set string_or_absent_def split: option.splits)

lemma extract_tone_tone:
  "\<exists>t. dict_get (extract_tone p d) ''tone'' = Some (JStr t)
       \<and> t \<in> set (tone_values named_values)"
proof (cases "find (\<lambda>(indicator, tone). py_in indicator (lower p)) tone_indicators")
  case None
  then show ?thesis
    by (simp add: extract_tone_def dict_get_dict_set named_values_def)
next
  case (Some hit)
  obtain ind tone where hit: "hit = (ind, tone)" by (cases hit)
  from find_in_set [OF Some] have "tone \<in> snd ` set tone_indicators"
    by (force simp: hit)
  then have "tone \<in> set (tone_values named_values)"
    by (auto simp: tone_indicators_def named_values_def)
  with Some show ?thesis
    by (simp add: extract_tone_def hit dict_get_dict_set)
qed

lemma variables_topic: "string_or_absent (dict_get (extract_variables p) ''topic'')"
proof -
  have "string_or_absent (dict_get (extract_topic p []) ''topic'')"
    by (rule extract_topic_topic) (simp add: string_or_absent_def dict_get_Nil)
  then show ?thesis
    by (simp add: extract_variables_def dict_get_dict_set extract_audience_other
        extract_length_other extract_tone_other)
qed

lemma variables_tone:
  "\<exists>t. dict_get (extract_variables p) ''tone'' = Some (JStr t)
       \<and> t \<in> set (tone_values named_values)"
  using extract_tone_tone [of p "extract_topic p []"]
  by (simp add: extract_variables_def dict_get_dict_set extract_audience_other
      extract_length_other)

lemma variables_length: "string_or_absent (dict_get (extract_variables p) ''length'')"
proof -
  have "dict_get (extract_tone p (extract_topic p [])) ''length'' = None"
    by (simp add: extract_tone_other extract_topic_other dict_get_Nil)
  then have "string_or_absent
      (dict_get (extract_length p (extract_tone p (extract_topic p []))) ''length'')"
    by (intro extract_length_length) (simp add: string_or_absent_def)
  then show ?thesis
    by (simp add: extract_variables_def dict_get_dict_set extract_audience_other)
qed

lemma variables_audience: "string_or_absent (dict_get (extract_variables p) ''target_audience'')"
proof -
  have "dict_get (extract_length p (extract_tone p (extract_topic p []))) ''target_audience''
          = None"
    by (simp add: extract_length_other extract_tone_other extract_topic_other dict_get_Nil)
  then have "string_or_absent
      (dict_get (extract_audience p (extract_length p (extract_tone p (extract_topic p []))))
                ''target_audience'')"
    by (intro extract_audience_audience) (simp add: string_or_absent_def)
  then show ?thesis
    by (simp add: extract_variables_def dict_get_dict_set)
qed

lemma variables_priority: "dict_get (extract_variables p) ''priority'' = Some (JStr ''medium'')"
  by (simp add: extract_variables_def dict_get_dict_set)

lemma variables_language: "dict_get (extract_variables p) ''language'' = Some (JStr ''en'')"
  by (simp add: extract_variables_def dict_get_dict_set)

lemma check_variables_props:
  assumes "declares_named_values vs"
  shows "check_props (variables_props vs) (JObj (extract_variables p)) = None"
proof -
  from variables_tone [of p] obtain t
    where tone: "dict_get (extract_variables p) ''tone'' = Some (JStr t)"
      and "t \<in> set (tone_values named_values)"
    by blast
  with assms have t: "t \<in> set (tone_values vs)"
    by (auto simp: declares_named_values_def)
  from assms have m: "''medium'' \<in> set (priority_values vs)"
    by (auto simp: declares_named_values_def named_values_def)
  show ?thesis
    unfolding variables_props_def
    apply (subst check_props_step)
     apply (rule string_or_absent_check [OF variables_topic])
    apply (subst check_props_present [OF tone check_enum [OF t]])
    apply (subst check_props_step)
     apply (rule string_or_absent_check [OF variables_length])
    apply (subst check_props_step)
     apply (rule string_or_absent_check [OF variables_audience])
    apply (subst check_props_present [OF variables_priority check_enum [OF m]])
    apply (subst check_props_present [OF variables_language check_string])
    apply simp
    done
qed

lemma check_variables:
  assumes "declares_named_values vs"
  shows "check (variables_schema vs) (JObj (extract_variables p)) = None"
  unfolding variables_schema_def
proof (rule check_object)
  show "local_failure [(''type'', JStr ''object''), (''properties'', JObj (variables_props vs))]
          (JObj (extract_variables p)) = None"
    by (simp add: local_failure_def type_failure_def enum_failure_def required_failure_def
        dict_get_def)
  have "sub_properties [(''type'', JStr ''object''), (''properties'', JObj (variables_props vs))]
          = variables_props vs"
    by (simp add: sub_properties_def dict_get_def)
  then show "check_props
      (sub_properties [(''type'', JStr ''object''), (''properties'', JObj (variables_props vs))])
      (JObj (extract_variables p)) = None"
    by (simp only: check_variables_props [OF assms])
  show "dict_get [(''type'', JStr ''object''), (''properties'', JObj (variables_props vs))]
          ''items'' = None"
    by (simp add: dict_get_def)
qed

subsection \<open>The whole record\<close>

lemma check_istvon_props:
  assumes "declares_named_values vs"
  shows "check_props (istvon_props vs) (JObj (convert_to_istvon slot p)) = None"
proof -
  let ?r = "convert_to_istvon slot p"
  have i: "dict_get ?r ''instructions'' = Some (JStr (extract_instructions p))"
    and s: "dict_get ?r ''source_data'' = Some (JArr (extract_source_data (lower p)))"
    and t: "dict_get ?r ''tools'' = Some (JArr (extract_tools slot (lower p)))"
    and v: "dict_get ?r ''variables'' = Some (JObj (extract_variables p))"
    and oc: "dict_get ?r ''outcome'' = Some (JObj (extract_outcome (lower p)))"
    and n: "dict_get ?r ''notification'' = Some (JObj (extract_notification (lower p)))"
    by (simp_all add: convert_to_istvon_def dict_get_def Let_def)
  show ?thesis
    unfolding istvon_props_def
    apply (subst check_props_present [OF i check_string])
    apply (subst check_props_present [OF s check_source_data [OF assms]])
    apply (subst check_props_present [OF t check_tools])
    apply (subst check_props_present [OF v check_variables [OF assms]])
    apply (subst check_props_present [OF oc check_outcome [OF assms]])
    apply (subst check_props_present [OF n check_notification [OF assms]])
    apply simp
    done
qed

lemma check_mapper_record:
  assumes "declares_named_values vs"
  shows "check (JObj (istvon_schema vs)) (JObj (convert_to_istvon slot p)) = None"
proof (rule check_object)
  show "local_failure (istvon_schema vs) (JObj (convert_to_istvon slot p)) = None"
    by (simp add: istvon_schema_def local_failure_def type_failure_def enum_failure_def
        required_failure_def dict_get_def dict_has_def required_keys_def convert_to_istvon_def
        Let_def)
  have "sub_properties (istvon_schema vs) = istvon_props vs"
    by (simp add: istvon_schema_def sub_properties_def dict_get_def)
  then show "check_props (sub_properties (istvon_schema vs)) (JObj (convert_to_istvon slot p))
               = None"
    by (simp only: check_istvon_props [OF assms])
  show "dict_get (istvon_schema vs) ''items'' = None"
    by (simp add: istvon_schema_def dict_get_def)
qed

text \<open>
  Claim C2. For every prompt and every set iteration order, the record the mapper
  produces passes full validation, \<^verbatim>\<open>validate_istvon\<close> returning \<open>(True, None)\<close>, against
  the schema of the specification with any declaration of value sets that has at least
  the values the specification names.
\<close>

theorem mapper_record_validates:
  "declares_named_values vs \<Longrightarrow>
   validate_istvon jsonschema_validate (istvon_schema vs) (convert_to_istvon slot p)
     = (True, None)"
proof -
  assume "declares_named_values vs"
  then have "check (JObj (istvon_schema vs)) (JObj (convert_to_istvon slot p)) = None"
    by (rule check_mapper_record)
  then have "jsonschema_validate (JObj (convert_to_istvon slot p)) (JObj (istvon_schema vs)) = Valid"
    by (simp add: jsonschema_validate_def)
  then show ?thesis
    by (simp add: validate_istvon_def)
qed

lemma named_values_declared: "declares_named_values named_values"
  by (simp add: declares_named_values_def)

text \<open>The theorem with exactly the named values, on the blog-post prompt.\<close>

theorem mapper_record_validates_witness:
  "validate_istvon jsonschema_validate (istvon_schema named_values)
     (convert_to_istvon seed_b ''Write a blog post about quantum computing for beginners'')
     = (True, None)"
  using mapper_record_validates [OF named_values_declared] by simp

end
